theory Spec2Isabelle
  imports Complex_Main "HOL-Library.AList" "HOL-Library.Sublist"
begin

section \<open>The Simplenote client (simplenote/simplenote.py)\<close>

text \<open>
  The module is modelled as it runs under Python 3: \<open>bytes(s, 'utf-8')\<close> succeeds,
  \<open>sys.version_info < (3, 0)\<close> is false, and \<open>str(x, 'utf-8')\<close> raises TypeError for
  a \<open>str\<close> or \<open>None\<close> argument.  Every method is a function from the client object to
  an outcome and the client object afterwards, so that what a call has changed (the
  cached token, the mark, the requests sent) is kept when the call raises.
\<close>

subsection \<open>Values\<close>

text \<open>
  What \<open>response.json()\<close> can return.  A dict is an association list in insertion
  order; \<open>map_of\<close> reads it and \<open>AList.update\<close> is \<open>d[k] = v\<close> (in place for a key
  that is there, appended otherwise).  A float is an opaque real: the code never computes
  with one.  A string is a list of characters.
\<close>

datatype jval =
    JNull
  | JBool bool
  | JInt int
  | JFloat real
  | JStr string
  | JArr "jval list"
  | JObj "(string \<times> jval) list"

type_synonym dict = "(string \<times> jval) list"

text \<open>
  The exceptions the code meets.  \<open>IOError\<close> stands for a connectivity failure raised by
  the transport (requests' ConnectionError and Timeout are subclasses of IOError);
  \<open>RequestsHTTPError\<close> is requests.exceptions.HTTPError, a subclass of IOError too.
\<close>

datatype py_exn =
    IOError string
  | RequestsHTTPError string
  | NameError string
  | KeyError string
  | TypeError string
  | ValueError string
  | OverflowError string
  | SimplenoteLoginFailed string

fun is_IOError :: "py_exn \<Rightarrow> bool" where
  "is_IOError (IOError _) = True"
| "is_IOError (RequestsHTTPError _) = True"
| "is_IOError _ = False"

fun is_TypeError :: "py_exn \<Rightarrow> bool" where
  "is_TypeError (TypeError _) = True"
| "is_TypeError _ = False"

fun is_ValueError :: "py_exn \<Rightarrow> bool" where
  "is_ValueError (ValueError _) = True"
| "is_ValueError _ = False"

text \<open>
  The module imports base64, datetime, json, requests, sys and time, and binds no name
  \<open>HTTPError\<close>.  An \<open>except HTTPError\<close> clause evaluates that name when an exception
  reaches it, so looking the name up is modelled as the failure it is.
\<close>

definition HTTPError :: "py_exn + (py_exn \<Rightarrow> bool)" where
  "HTTPError = Inl (NameError ''HTTPError'')"

text \<open>\<open>bool(v)\<close>, as \<open>while self.mark\<close> tests it.\<close>

fun truthy :: "jval \<Rightarrow> bool" where
  "truthy JNull = False"
| "truthy (JBool b) = b"
| "truthy (JInt i) = (i \<noteq> 0)"
| "truthy (JFloat r) = (r \<noteq> 0)"
| "truthy (JStr s) = (s \<noteq> [])"
| "truthy (JArr xs) = (xs \<noteq> [])"
| "truthy (JObj kvs) = (kvs \<noteq> [])"

text \<open>\<open>v[k]\<close> for a string \<open>k\<close>: only a dict can be read by a string.\<close>

fun subscript :: "jval \<Rightarrow> string \<Rightarrow> py_exn + jval" where
  "subscript (JObj kvs) k = (case map_of kvs k of None \<Rightarrow> Inl (KeyError k) | Some v \<Rightarrow> Inr v)"
| "subscript _ k = Inl (TypeError ''subscript'')"

text \<open>\<open>k in v\<close> for a string \<open>k\<close>.\<close>

fun py_in :: "string \<Rightarrow> jval \<Rightarrow> py_exn + bool" where
  "py_in k (JObj kvs) = Inr (k \<in> fst ` set kvs)"
| "py_in k (JArr xs) = Inr (JStr k \<in> set xs)"
| "py_in k (JStr s) = Inr (sublist k s)"
| "py_in k _ = Inl (TypeError ''not iterable'')"

text \<open>The elements \<open>list.extend(v)\<close> and \<open>set(v)\<close> iterate over.\<close>

fun py_iter :: "jval \<Rightarrow> py_exn + jval list" where
  "py_iter (JArr xs) = Inr xs"
| "py_iter (JStr s) = Inr (map (\<lambda>ch. JStr [ch]) s)"
| "py_iter (JObj kvs) = Inr (map (\<lambda>kv. JStr (fst kv)) kvs)"
| "py_iter _ = Inl (TypeError ''not iterable'')"

fun hashable :: "jval \<Rightarrow> bool" where
  "hashable (JArr _) = False"
| "hashable (JObj _) = False"
| "hashable _ = True"

text \<open>\<open>set(v)\<close>, kept as the list of its elements: it fails on an unhashable element.\<close>

definition py_set :: "jval \<Rightarrow> py_exn + jval list" where
  "py_set v =
     (case py_iter v of
        Inl e \<Rightarrow> Inl e
      | Inr xs \<Rightarrow> if list_all hashable xs then Inr xs else Inl (TypeError ''unhashable''))"

subsection \<open>The transport and the environment\<close>

text \<open>
  \<open>self.session\<close> is the HTTP transport, outside the module.  It is modelled by what it
  will answer to the requests to come, in order (\<open>pending\<close>), and the requests it has
  been given (\<open>sent\<close>).  An answer is a response object or an exception.  A response
  gives its \<open>.text\<close> and its \<open>.json()\<close>, each of which may raise.  When nothing is left
  to answer, the request is sent and the call does not return (\<open>Blocked\<close>).
\<close>

record response =
  status_code :: int
  resp_text :: "py_exn + string"
  resp_json :: "py_exn + jval"

datatype outcome = Responds response | Fails py_exn

datatype http_method = GET | POST | DELETE

datatype payload = NoBody | Data string | Json jval

record request =
  req_meth :: http_method
  req_url :: string
  req_params :: dict
  req_body :: payload

record transport =
  pending :: "outcome list"
  sent :: "request list"

record client =
  username :: string
  password :: string
  token :: "string option"
  mark :: jval
  session :: transport

datatype 'a result = Return 'a | Raise py_exn | Blocked

text \<open>
  The library functions the module calls: \<open>time.time()\<close>;
  \<open>time.mktime(datetime.datetime.strptime(s, "%Y-%m-%d").timetuple())\<close> on a string,
  with the exception it raises when it raises one; \<open>str(v)\<close> of a value that is not a
  string; \<open>base64.b64encode(bytes(s, 'utf-8'))\<close>.
\<close>

record env =
  time_time :: real
  since_timestamp :: "string \<Rightarrow> py_exn + real"
  py_str :: "jval \<Rightarrow> string"
  b64encode :: "string \<Rightarrow> string"

definition format_value :: "env \<Rightarrow> jval \<Rightarrow> string" where
  "format_value E v = (case v of JStr s \<Rightarrow> s | _ \<Rightarrow> py_str E v)"

definition AUTH_URL :: string where
  "AUTH_URL = ''https://app.simplenote.com/api/login''"

definition DATA_URL :: string where
  "DATA_URL = ''https://app.simplenote.com/api2/data''"

definition INDX_URL :: string where
  "INDX_URL = ''https://app.simplenote.com/api2/index?''"

definition NOTE_FETCH_LENGTH :: int where
  "NOTE_FETCH_LENGTH = 100"

definition session_request :: "request \<Rightarrow> client \<Rightarrow> response result \<times> client" where
  "session_request rq c =
     (let t = (session c)\<lparr>sent := sent (session c) @ [rq]\<rparr> in
      case pending (session c) of
        [] \<Rightarrow> (Blocked, c\<lparr>session := t\<rparr>)
      | Responds r # rest \<Rightarrow> (Return r, c\<lparr>session := t\<lparr>pending := rest\<rparr>\<rparr>)
      | Fails e # rest \<Rightarrow> (Raise e, c\<lparr>session := t\<lparr>pending := rest\<rparr>\<rparr>))"

subsection \<open>Authentication\<close>

text \<open>
  \<open>authenticate\<close>: the POST is made before the \<open>try\<close>, so what it raises leaves the
  method as it is.  Inside the \<open>try\<close> only \<open>response.text\<close> is read; an exception there
  goes to the clauses \<open>except HTTPError\<close>, \<open>except IOError\<close> in that order.
\<close>

definition authenticate :: "env \<Rightarrow> string \<Rightarrow> string \<Rightarrow> client \<Rightarrow> string option result \<times> client" where
  "authenticate E user pw c =
     (let auth_params = ''email='' @ user @ ''&password='' @ pw;
          values = b64encode E auth_params in
      case session_request \<lparr>req_meth = POST, req_url = AUTH_URL, req_params = [], req_body = Data values\<rparr> c of
        (Blocked, c1) \<Rightarrow> (Blocked, c1)
      | (Raise e, c1) \<Rightarrow> (Raise e, c1)
      | (Return response, c1) \<Rightarrow>
          (case resp_text response of
             Inr res \<Rightarrow> (Return (Some res), c1)
           | Inl e \<Rightarrow>
               (case HTTPError of
                  Inl ne \<Rightarrow> (Raise ne, c1)
                | Inr cls \<Rightarrow>
                    if cls e then (Raise (SimplenoteLoginFailed ''Login to Simplenote API failed!''), c1)
                    else if is_IOError e then (Return None, c1)
                    else (Raise e, c1))))"

text \<open>
  \<open>get_token\<close>: \<open>str(self.token, 'utf-8')\<close> raises TypeError for a \<open>str\<close> and for
  \<open>None\<close>, so the method returns \<open>self.token\<close>.
\<close>

definition get_token :: "env \<Rightarrow> client \<Rightarrow> string option result \<times> client" where
  "get_token E c =
     (if token c = None then
        (case authenticate E (username c) (password c) c of
           (Return t, c1) \<Rightarrow> (Return t, c1\<lparr>token := t\<rparr>)
         | (Raise e, c1) \<Rightarrow> (Raise e, c1)
         | (Blocked, c1) \<Rightarrow> (Blocked, c1))
      else (Return (token c), c))"

definition token_value :: "string option \<Rightarrow> jval" where
  "token_value t = (case t of None \<Rightarrow> JNull | Some s \<Rightarrow> JStr s)"

definition get_auth_params :: "env \<Rightarrow> client \<Rightarrow> dict result \<times> client" where
  "get_auth_params E c =
     (case get_token E c of
        (Return t, c1) \<Rightarrow> (Return [(''auth'', token_value t), (''email'', JStr (username c1))], c1)
      | (Raise e, c1) \<Rightarrow> (Raise e, c1)
      | (Blocked, c1) \<Rightarrow> (Blocked, c1))"

subsection \<open>Single notes\<close>

text \<open>
  What a public method returns is a pair \<open>(value, status)\<close>.  The value is a decoded
  note, the exception object that was caught, or a message.
\<close>

datatype retval = Note jval | Error py_exn | Message string

text \<open>Under Python 3 \<open>__encode\<close> and \<open>__decode\<close> return the note as it is.\<close>

definition Simplenote_encode :: "jval \<Rightarrow> jval" where
  "Simplenote_encode note = note"

definition Simplenote_decode :: "dict \<Rightarrow> dict" where
  "Simplenote_decode note = note"

text \<open>
  \<open>get_note\<close>: the arguments of \<open>session.get\<close> (so \<open>get_auth_params()\<close>) and the call
  are inside the \<open>try\<close>; the clauses are \<open>except HTTPError\<close>, \<open>except IOError\<close>, both
  returning \<open>e, -1\<close>.  \<open>response.json()\<close> is after the \<open>try\<close>.
\<close>

definition get_note_except :: "py_exn \<Rightarrow> client \<Rightarrow> (retval \<times> int) result \<times> client" where
  "get_note_except e c =
     (case HTTPError of
        Inl ne \<Rightarrow> (Raise ne, c)
      | Inr cls \<Rightarrow>
          if cls e then (Return (Error e, - 1), c)
          else if is_IOError e then (Return (Error e, - 1), c)
          else (Raise e, c))"

definition get_note :: "env \<Rightarrow> string \<Rightarrow> int option \<Rightarrow> client \<Rightarrow> (retval \<times> int) result \<times> client" where
  "get_note E noteid version c =
     (let params_version = (case version of None \<Rightarrow> [] | Some v \<Rightarrow> ''/'' @ py_str E (JInt v));
          url = DATA_URL @ ''/'' @ noteid @ params_version in
      case get_auth_params E c of
        (Blocked, c1) \<Rightarrow> (Blocked, c1)
      | (Raise e, c1) \<Rightarrow> get_note_except e c1
      | (Return ps, c1) \<Rightarrow>
          (case session_request \<lparr>req_meth = GET, req_url = url, req_params = ps, req_body = NoBody\<rparr> c1 of
             (Blocked, c2) \<Rightarrow> (Blocked, c2)
           | (Raise e, c2) \<Rightarrow> get_note_except e c2
           | (Return response, c2) \<Rightarrow>
               (case resp_json response of
                  Inl e \<Rightarrow> (Raise e, c2)
                | Inr note \<Rightarrow> (Return (Note (Simplenote_encode note), 0), c2))))"

text \<open>
  \<open>update_note\<close>: \<open>"key" in note\<close> and \<open>note["key"]\<close> are the one lookup
  \<open>map_of note ''key''\<close>.  The \<open>try\<close> holds \<open>get_auth_params()\<close> and the POST, with the
  one clause \<open>except IOError as e: return e, -1\<close>, which \<open>delete_note\<close> has too.
\<close>

definition except_IOError :: "py_exn \<Rightarrow> client \<Rightarrow> (retval \<times> int) result \<times> client" where
  "except_IOError e c = (if is_IOError e then (Return (Error e, - 1), c) else (Raise e, c))"

definition update_note_target :: "env \<Rightarrow> dict \<Rightarrow> dict \<times> string" where
  "update_note_target E note =
     (case map_of note ''key'' of
        Some k \<Rightarrow>
          (let note1 = (if ''modifydate'' \<notin> fst ` set note
                        then AList.update ''modifydate'' (JFloat (time_time E)) note
                        else note)
           in (note1, DATA_URL @ ''/'' @ format_value E k))
      | None \<Rightarrow> (note, DATA_URL))"

definition update_note :: "env \<Rightarrow> dict \<Rightarrow> client \<Rightarrow> (retval \<times> int) result \<times> client" where
  "update_note E note0 c =
     (let (note, url) = update_note_target E (Simplenote_decode note0) in
      case get_auth_params E c of
        (Blocked, c1) \<Rightarrow> (Blocked, c1)
      | (Raise e, c1) \<Rightarrow> except_IOError e c1
      | (Return ps, c1) \<Rightarrow>
          (case session_request \<lparr>req_meth = POST, req_url = url, req_params = ps, req_body = Json (JObj note)\<rparr> c1 of
             (Blocked, c2) \<Rightarrow> (Blocked, c2)
           | (Raise e, c2) \<Rightarrow> except_IOError e c2
           | (Return response, c2) \<Rightarrow>
               (case resp_json response of
                  Inl e \<Rightarrow> (Raise e, c2)
                | Inr n \<Rightarrow> (Return (Note (Simplenote_encode n), 0), c2))))"

definition add_note :: "env \<Rightarrow> jval \<Rightarrow> client \<Rightarrow> (retval \<times> int) result \<times> client" where
  "add_note E note c =
     (case note of
        JStr s \<Rightarrow> update_note E [(''content'', JStr s)] c
      | JObj d \<Rightarrow>
          if ''content'' \<in> fst ` set d then update_note E d c
          else (Return (Message ''No string or valid note.'', - 1), c)
      | _ \<Rightarrow> (Return (Message ''No string or valid note.'', - 1), c))"

text \<open>
  \<open>trash_note\<close> calls \<open>self.get_note\<close> and \<open>self.update_note\<close>, looked up on the
  object when it runs.  \<open>trash_note_with\<close> is its body over the two methods;
  \<open>trash_note\<close> is the body with the methods of this class.  \<open>note["deleted"] = 1\<close>
  needs a dict.
\<close>

definition trash_note_with ::
  "(string \<Rightarrow> client \<Rightarrow> (retval \<times> int) result \<times> client) \<Rightarrow>
   (dict \<Rightarrow> client \<Rightarrow> (retval \<times> int) result \<times> client) \<Rightarrow>
   string \<Rightarrow> client \<Rightarrow> (retval \<times> int) result \<times> client" where
  "trash_note_with self_get_note self_update_note note_id c =
     (case self_get_note note_id c of
        (Blocked, c1) \<Rightarrow> (Blocked, c1)
      | (Raise e, c1) \<Rightarrow> (Raise e, c1)
      | (Return (note, status), c1) \<Rightarrow>
          if status = - 1 then (Return (note, status), c1)
          else (case note of
                  Note (JObj d) \<Rightarrow> self_update_note (AList.update ''deleted'' (JInt 1) d) c1
                | _ \<Rightarrow> (Raise (TypeError ''item assignment''), c1)))"

definition trash_note :: "env \<Rightarrow> string \<Rightarrow> client \<Rightarrow> (retval \<times> int) result \<times> client" where
  "trash_note E = trash_note_with (\<lambda>note_id. get_note E note_id None) (update_note E)"

text \<open>
  \<open>delete_note\<close>: \<open>url\<close> is built from the note id and not used; the DELETE goes to
  \<open>DATA_URL\<close>.
\<close>

definition delete_note :: "env \<Rightarrow> string \<Rightarrow> client \<Rightarrow> (retval \<times> int) result \<times> client" where
  "delete_note E note_id c =
     (case trash_note E note_id c of
        (Blocked, c1) \<Rightarrow> (Blocked, c1)
      | (Raise e, c1) \<Rightarrow> (Raise e, c1)
      | (Return (note, status), c1) \<Rightarrow>
          if status = - 1 then (Return (note, status), c1)
          else
            (let url = DATA_URL @ ''/'' @ note_id in
             case get_auth_params E c1 of
               (Blocked, c2) \<Rightarrow> (Blocked, c2)
             | (Raise e, c2) \<Rightarrow> except_IOError e c2
             | (Return ps, c2) \<Rightarrow>
                 (case session_request \<lparr>req_meth = DELETE, req_url = DATA_URL, req_params = ps, req_body = NoBody\<rparr> c2 of
                    (Blocked, c3) \<Rightarrow> (Blocked, c3)
                  | (Raise e, c3) \<Rightarrow> except_IOError e c3
                  | (Return response, c3) \<Rightarrow> (Return (Note (JObj []), 0), c3))))"

subsection \<open>The note list\<close>

text \<open>
  The \<open>try\<close> of \<open>__get_notes\<close>: the GET, \<open>response.json()\<close>, and
  \<open>notes["data"].extend(notes_index["data"])\<close>.  It gives \<open>notes_index\<close> as it stands
  when the \<open>try\<close> is left, with the longer list or the exception that ended it.
\<close>

definition get_notes_try :: "jval list \<Rightarrow> dict \<Rightarrow> client \<Rightarrow> (jval \<times> (py_exn + jval list)) result \<times> client" where
  "get_notes_try notes params c =
     (case session_request \<lparr>req_meth = GET, req_url = INDX_URL, req_params = params, req_body = NoBody\<rparr> c of
        (Blocked, c1) \<Rightarrow> (Blocked, c1)
      | (Raise e, c1) \<Rightarrow> (Return (JObj [], Inl e), c1)
      | (Return response, c1) \<Rightarrow>
          (case resp_json response of
             Inl e \<Rightarrow> (Return (JObj [], Inl e), c1)
           | Inr notes_index \<Rightarrow>
               (case subscript notes_index ''data'' of
                  Inl e \<Rightarrow> (Return (notes_index, Inl e), c1)
                | Inr d \<Rightarrow>
                    (case py_iter d of
                       Inl e \<Rightarrow> (Return (notes_index, Inl e), c1)
                     | Inr xs \<Rightarrow> (Return (notes_index, Inr (notes @ xs)), c1)))))"

text \<open>
  \<open>if "mark" in notes_index: self.mark = notes_index["mark"] else: self.mark = ""\<close>
\<close>

definition update_mark :: "jval \<Rightarrow> client \<Rightarrow> py_exn + client" where
  "update_mark notes_index c =
     (case py_in ''mark'' notes_index of
        Inl e \<Rightarrow> Inl e
      | Inr True \<Rightarrow>
          (case subscript notes_index ''mark'' of
             Inl e \<Rightarrow> Inl e
           | Inr m \<Rightarrow> Inr (c\<lparr>mark := m\<rparr>))
      | Inr False \<Rightarrow> Inr (c\<lparr>mark := JStr []\<rparr>))"

text \<open>
  \<open>__get_notes\<close> changes \<open>params\<close> in place, so it gives the dict back with the list
  and the status.
\<close>

definition Simplenote_get_notes ::
  "jval list \<Rightarrow> dict \<Rightarrow> client \<Rightarrow> ((jval list \<times> int) \<times> dict) result \<times> client" where
  "Simplenote_get_notes notes params0 c =
     (let params = (if mark c \<noteq> JStr ''mark'' then AList.update ''mark'' (mark c) params0 else params0) in
      case get_notes_try notes params c of
        (Blocked, c1) \<Rightarrow> (Blocked, c1)
      | (Raise e, c1) \<Rightarrow> (Raise e, c1)
      | (Return (notes_index, tried), c1) \<Rightarrow>
          (case (case tried of
                   Inr notes1 \<Rightarrow> Inr (notes1, 0)
                 | Inl e \<Rightarrow> if is_IOError e then Inr (notes, - 1) else Inl e) of
             Inl e \<Rightarrow> (Raise e, c1)
           | Inr (notes1, status) \<Rightarrow>
               (case update_mark notes_index c1 of
                  Inl e \<Rightarrow> (Raise e, c1)
                | Inr c2 \<Rightarrow> (Return ((notes1, status), params), c2))))"

text \<open>
  The loop \<open>while self.mark: notes, status = self.__get_notes(notes, params)\<close> of
  \<open>get_note_list\<close>.  Every turn that comes back has taken one answer from the
  transport, which is why the recursion ends.
\<close>

lemma session_request_pending:
  "session_request rq c = (Return r, c') \<Longrightarrow> length (pending (session c')) < length (pending (session c))"
  by (auto simp: session_request_def Let_def split: list.splits outcome.splits)

lemma session_request_pending_raise:
  "session_request rq c = (Raise e, c') \<Longrightarrow> length (pending (session c')) < length (pending (session c))"
  by (auto simp: session_request_def Let_def split: list.splits outcome.splits)

lemma get_notes_try_pending:
  "get_notes_try notes params c = (Return x, c') \<Longrightarrow> length (pending (session c')) < length (pending (session c))"
  by (auto simp: get_notes_try_def split: prod.splits result.splits sum.splits
      dest: session_request_pending session_request_pending_raise)

lemma update_mark_session:
  "update_mark notes_index c = Inr c' \<Longrightarrow> session c' = session c"
  by (auto simp: update_mark_def split: sum.splits bool.splits)

lemma Simplenote_get_notes_pending:
  "Simplenote_get_notes notes params c = (Return x, c') \<Longrightarrow> length (pending (session c')) < length (pending (session c))"
  by (auto simp: Simplenote_get_notes_def Let_def split: prod.splits result.splits sum.splits if_splits
      dest!: get_notes_try_pending update_mark_session)

function get_note_list_loop ::
  "jval list \<Rightarrow> int \<Rightarrow> dict \<Rightarrow> client \<Rightarrow> ((jval list \<times> int) \<times> dict) result \<times> client" where
  "get_note_list_loop notes status params c =
     (if truthy (mark c) then
        (case Simplenote_get_notes notes params c of
           (Return ((notes1, status1), params1), c1) \<Rightarrow> get_note_list_loop notes1 status1 params1 c1
         | (Raise e, c1) \<Rightarrow> (Raise e, c1)
         | (Blocked, c1) \<Rightarrow> (Blocked, c1))
      else (Return ((notes, status), params), c))"
  by pat_completeness auto
termination
  by (relation "measure (\<lambda>(notes, status, params, c). length (pending (session c)))")
     (auto dest: Simplenote_get_notes_pending [OF sym])

declare get_note_list_loop.simps [simp del]

text \<open>
  \<open>len(set(n["tags"]).intersection(tags)) > 0\<close>, and the list comprehension over the
  notes, which stops at the first note where the test raises.
\<close>

definition has_tag :: "string list \<Rightarrow> jval \<Rightarrow> py_exn + bool" where
  "has_tag tags n =
     (case subscript n ''tags'' of
        Inl e \<Rightarrow> Inl e
      | Inr ts \<Rightarrow>
          (case py_set ts of
             Inl e \<Rightarrow> Inl e
           | Inr xs \<Rightarrow> Inr (list_ex (\<lambda>x. x \<in> set (map JStr tags)) xs)))"

fun filter_tags :: "string list \<Rightarrow> jval list \<Rightarrow> py_exn + jval list" where
  "filter_tags tags [] = Inr []"
| "filter_tags tags (n # ns) =
     (case has_tag tags n of
        Inl e \<Rightarrow> Inl e
      | Inr b \<Rightarrow>
          (case filter_tags tags ns of
             Inl e \<Rightarrow> Inl e
           | Inr r \<Rightarrow> Inr (if b then n # r else r)))"

text \<open>
  The \<open>try\<close> around \<open>params['since'] = sinceUT\<close>, with its clause
  \<open>except (TypeError, ValueError): pass\<close>.  \<open>strptime(None, ...)\<close> raises TypeError.
\<close>

definition since_param :: "env \<Rightarrow> string option \<Rightarrow> dict \<Rightarrow> py_exn + dict" where
  "since_param E since params =
     (case since of
        None \<Rightarrow> Inr params
      | Some s \<Rightarrow>
          (case since_timestamp E s of
             Inr sinceUT \<Rightarrow> Inr (AList.update ''since'' (JFloat sinceUT) params)
           | Inl e \<Rightarrow> if is_TypeError e \<or> is_ValueError e then Inr params else Inl e))"

definition get_note_list :: "env \<Rightarrow> string option \<Rightarrow> string list \<Rightarrow> client \<Rightarrow> (jval list \<times> int) result \<times> client" where
  "get_note_list E since tags c0 =
     (case get_auth_params E (c0\<lparr>mark := JStr ''mark''\<rparr>) of
        (Blocked, c1) \<Rightarrow> (Blocked, c1)
      | (Raise e, c1) \<Rightarrow> (Raise e, c1)
      | (Return auth, c1) \<Rightarrow>
          (case since_param E since (AList.update ''length'' (JInt NOTE_FETCH_LENGTH) auth) of
             Inl e \<Rightarrow> (Raise e, c1)
           | Inr params \<Rightarrow>
               (case get_note_list_loop [] 0 params c1 of
                  (Blocked, c2) \<Rightarrow> (Blocked, c2)
                | (Raise e, c2) \<Rightarrow> (Raise e, c2)
                | (Return ((note_list, status), params1), c2) \<Rightarrow>
                    if length tags > 0 then
                      (case filter_tags tags note_list of
                         Inl e \<Rightarrow> (Raise e, c2)
                       | Inr filtered \<Rightarrow> (Return (filtered, status), c2))
                    else (Return (note_list, status), c2))))"

subsection \<open>Objects, answers and pages of the statements\<close>

text \<open>
  \<open>__init__\<close>, with what the transport of the new object is going to answer.
\<close>

definition new_client :: "string \<Rightarrow> string \<Rightarrow> outcome list \<Rightarrow> client" where
  "new_client user pw answers =
     \<lparr>username = user, password = pw, token = None, mark = JStr ''mark'',
      session = \<lparr>pending = answers, sent = []\<rparr>\<rparr>"

text \<open>
  An environment for the closed statements.  The general statements hold for every
  environment; here \<open>str\<close> and the base64 encoding are stand-ins, and the one date
  that parses is 2018-01-01.
\<close>

definition env0 :: env where
  "env0 =
     \<lparr>time_time = 1541289600,
      since_timestamp =
        (\<lambda>s. if s = ''2018-01-01'' then Inr 1514764800
             else Inl (ValueError ''time data does not match format'')),
      py_str = (\<lambda>v. ''?''),
      b64encode = (\<lambda>s. s)\<rparr>"

definition body_response :: "int \<Rightarrow> string \<Rightarrow> response" where
  "body_response code s =
     \<lparr>status_code = code, resp_text = Inr s, resp_json = Inl (ValueError ''no JSON'')\<rparr>"

definition json_response :: "jval \<Rightarrow> response" where
  "json_response v = \<lparr>status_code = 200, resp_text = Inr [], resp_json = Inr v\<rparr>"

text \<open>The request \<open>authenticate\<close> makes, and a request for a page of the index.\<close>

definition login_request :: "env \<Rightarrow> string \<Rightarrow> string \<Rightarrow> request" where
  "login_request E user pw =
     \<lparr>req_meth = POST, req_url = AUTH_URL, req_params = [],
      req_body = Data (b64encode E (''email='' @ user @ ''&password='' @ pw))\<rparr>"

definition listing_request :: "dict \<Rightarrow> request" where
  "listing_request params =
     \<lparr>req_meth = GET, req_url = INDX_URL, req_params = params, req_body = NoBody\<rparr>"

text \<open>
  A page of the index is a JSON object whose \<open>data\<close> is an array.  Its mark is the
  value under \<open>mark\<close>, and the empty string when there is none.
\<close>

definition is_page :: "dict \<Rightarrow> bool" where
  "is_page p = (case map_of p ''data'' of Some (JArr d) \<Rightarrow> True | _ \<Rightarrow> False)"

definition page_data :: "dict \<Rightarrow> jval list" where
  "page_data p = (case map_of p ''data'' of Some (JArr d) \<Rightarrow> d | _ \<Rightarrow> [])"

definition page_mark :: "dict \<Rightarrow> jval" where
  "page_mark p = (case map_of p ''mark'' of Some m \<Rightarrow> m | None \<Rightarrow> JStr [])"

definition page_answer :: "dict \<Rightarrow> outcome" where
  "page_answer p = Responds (json_response (JObj p))"

text \<open>The parameters of the first listing request of a client whose token is cached.\<close>

definition first_params :: "string \<Rightarrow> string \<Rightarrow> dict" where
  "first_params tok user =
     [(''auth'', JStr tok), (''email'', JStr user), (''length'', JInt NOTE_FETCH_LENGTH)]"

text \<open>
  The requests of the loop, from the mark and the parameters it starts a turn with:
  \<open>__get_notes\<close> writes the mark into the parameters unless it is \<open>"mark"\<close>.
\<close>

definition mark_params :: "jval \<Rightarrow> dict \<Rightarrow> dict" where
  "mark_params m params = (if m \<noteq> JStr ''mark'' then AList.update ''mark'' m params else params)"

fun loop_requests :: "jval \<Rightarrow> dict \<Rightarrow> dict list \<Rightarrow> request list" where
  "loop_requests m params [] = []"
| "loop_requests m params (p # ps) =
     listing_request (mark_params m params) # loop_requests (page_mark p) (mark_params m params) ps"

text \<open>The parameters and the mark the loop has after the pages.\<close>

fun loop_params :: "jval \<Rightarrow> dict \<Rightarrow> dict list \<Rightarrow> dict" where
  "loop_params m params [] = params"
| "loop_params m params (p # ps) = loop_params (page_mark p) (mark_params m params) ps"

fun loop_mark :: "jval \<Rightarrow> dict list \<Rightarrow> jval" where
  "loop_mark m [] = m"
| "loop_mark m (p # ps) = loop_mark (page_mark p) ps"

text \<open>
  What \<open>get_note_list\<close> does with the list and the status the loop ends with.
\<close>

definition tag_stage :: "string list \<Rightarrow> jval list \<Rightarrow> int \<Rightarrow> (jval list \<times> int) result" where
  "tag_stage tags note_list status =
     (if tags = [] then Return (note_list, status)
      else (case filter_tags tags note_list of
              Inl e \<Rightarrow> Raise e
            | Inr filtered \<Rightarrow> Return (filtered, status)))"

text \<open>
  A record that can be filtered: a JSON object whose \<open>tags\<close> is an array of hashable
  values; the tags it carries; a record without the field.
\<close>

definition tagged_record :: "jval \<Rightarrow> bool" where
  "tagged_record n =
     (case n of
        JObj d \<Rightarrow> (case map_of d ''tags'' of Some (JArr ts) \<Rightarrow> list_all hashable ts | _ \<Rightarrow> False)
      | _ \<Rightarrow> False)"

definition record_tags :: "jval \<Rightarrow> jval set" where
  "record_tags n =
     (case n of
        JObj d \<Rightarrow> (case map_of d ''tags'' of Some (JArr ts) \<Rightarrow> set ts | _ \<Rightarrow> {})
      | _ \<Rightarrow> {})"

definition lacks_tags :: "jval \<Rightarrow> bool" where
  "lacks_tags n = (case n of JObj d \<Rightarrow> map_of d ''tags'' = None | _ \<Rightarrow> False)"

text \<open>
  The set of a record's tags, \<open>set(n["tags"])\<close>, kept as the list of its elements,
  where Python makes one: the record is a JSON object with the field, and the field is an
  array of hashable values, a string (the set of its characters) or an object (the set of
  its keys).  A record shares a tag with the request when that set meets the requested
  tags.
\<close>

definition tag_set :: "jval \<Rightarrow> jval list option" where
  "tag_set n =
     (case n of
        JObj d \<Rightarrow>
          (case map_of d ''tags'' of
             Some (JArr ts) \<Rightarrow> if list_all hashable ts then Some ts else None
           | Some (JStr s) \<Rightarrow> Some (map (\<lambda>ch. JStr [ch]) s)
           | Some (JObj kvs) \<Rightarrow> Some (map (\<lambda>kv. JStr (fst kv)) kvs)
           | _ \<Rightarrow> None)
      | _ \<Rightarrow> None)"

definition shares_tag :: "string list \<Rightarrow> jval \<Rightarrow> bool" where
  "shares_tag tags n =
     (case tag_set n of
        Some xs \<Rightarrow> set xs \<inter> JStr ` set tags \<noteq> {}
      | None \<Rightarrow> False)"

text \<open>The value of \<open>since\<close> in the parameters, as the specification gives it.\<close>

definition since_value :: "env \<Rightarrow> string option \<Rightarrow> jval option" where
  "since_value E since =
     (case since of
        None \<Rightarrow> None
      | Some s \<Rightarrow> (case since_timestamp E s of Inr ts \<Rightarrow> Some (JFloat ts) | Inl e \<Rightarrow> None))"

text \<open>The requests a call has sent: those of the client after it that were not there before.\<close>

definition new_requests :: "client \<Rightarrow> client \<Rightarrow> request list" where
  "new_requests c c' = drop (length (sent (session c))) (sent (session c'))"

text \<open>A \<open>get_note\<close> put in the place of the method, which fails as the docstring says.\<close>

definition failing_get_note :: "string \<Rightarrow> client \<Rightarrow> (retval \<times> int) result \<times> client" where
  "failing_get_note note_id c = (Return (Error (IOError ''connection refused''), - 1), c)"

section \<open>Properties\<close>

subsection \<open>The token (C3)\<close>

lemma session_request_sent:
  "sent (session (snd (session_request rq c))) = sent (session c) @ [rq]"
  by (auto simp: session_request_def Let_def split: list.splits outcome.splits)

lemma authenticate_sent:
  "sent (session (snd (authenticate E u p c))) = sent (session c) @ [login_request E u p]"
  by (auto simp: authenticate_def session_request_def login_request_def Let_def HTTPError_def
      split: list.splits outcome.splits sum.splits)

lemma authenticate_responds:
  "pending (session c) = Responds r # rest \<Longrightarrow> resp_text r = Inr tok \<Longrightarrow>
   authenticate E u p c =
     (Return (Some tok), c\<lparr>session := \<lparr>pending = rest, sent = sent (session c) @ [login_request E u p]\<rparr>\<rparr>)"
  by (simp add: authenticate_def session_request_def login_request_def Let_def)

lemma get_token_cached_eq: "token c = Some t \<Longrightarrow> get_token E c = (Return (Some t), c)"
  by (simp add: get_token_def)

lemma get_token_repeat:
  "token c = Some t \<Longrightarrow> ((\<lambda>c. snd (get_token E c)) ^^ n) c = c"
  by (induction n) (simp_all add: get_token_cached_eq)

text \<open>
  C3, as amended.  \<open>get_token\<close> tests \<open>self.token == None\<close>.  With any cached string,
  the empty one too, it returns that string and leaves the client as it is: nothing is
  sent.  With \<open>None\<close> it calls \<open>authenticate\<close>, which sends exactly the login request;
  when the transport answers with a body, that body is returned and cached, and over any
  number of further calls the login request stays the only request sent.
\<close>

theorem get_token_cache:
  "(token c = Some t \<longrightarrow> get_token E c = (Return (Some t), c)) \<and>
   (token c = None \<longrightarrow>
      new_requests c (snd (get_token E c)) = [login_request E (username c) (password c)]) \<and>
   (token c = None \<and> pending (session c) = Responds r # rest \<and> resp_text r = Inr tok \<longrightarrow>
      get_token E c =
        (Return (Some tok),
         c\<lparr>token := Some tok,
           session := \<lparr>pending = rest,
                       sent = sent (session c) @ [login_request E (username c) (password c)]\<rparr>\<rparr>) \<and>
      (\<forall>n. new_requests c (((\<lambda>c. snd (get_token E c)) ^^ Suc n) c) =
             [login_request E (username c) (password c)]))"
proof (intro conjI impI)
  assume "token c = Some t"
  then show "get_token E c = (Return (Some t), c)" by (rule get_token_cached_eq)
next
  assume n: "token c = None"
  have "sent (session (snd (get_token E c))) = sent (session (snd (authenticate E (username c) (password c) c)))"
    using n by (simp add: get_token_def split: prod.splits result.splits)
  then show "new_requests c (snd (get_token E c)) = [login_request E (username c) (password c)]"
    by (simp add: new_requests_def authenticate_sent)
next
  assume a: "token c = None \<and> pending (session c) = Responds r # rest \<and> resp_text r = Inr tok"
  let ?c1 = "c\<lparr>token := Some tok,
           session := \<lparr>pending = rest,
                       sent = sent (session c) @ [login_request E (username c) (password c)]\<rparr>\<rparr>"
  show first: "get_token E c = (Return (Some tok), ?c1)"
    using a by (simp add: get_token_def authenticate_responds)
  show "\<forall>n. new_requests c (((\<lambda>c. snd (get_token E c)) ^^ Suc n) c) =
             [login_request E (username c) (password c)]"
  proof
    fix n
    have "((\<lambda>c. snd (get_token E c)) ^^ Suc n) c = ((\<lambda>c. snd (get_token E c)) ^^ n) ?c1"
      by (simp only: funpow_Suc_right o_apply first snd_conv)
    also have "\<dots> = ?c1" by (rule get_token_repeat [of _ tok]) simp
    finally show "new_requests c (((\<lambda>c. snd (get_token E c)) ^^ Suc n) c) =
             [login_request E (username c) (password c)]"
      by (simp add: new_requests_def)
  qed
qed

theorem get_token_cache_witness:
  "token (new_client ''u'' ''p'' [Responds (body_response 200 ''tok''), Responds (body_response 200 ''other'')]) = None \<and>
   get_token env0 (new_client ''u'' ''p'' [Responds (body_response 200 ''tok''), Responds (body_response 200 ''other'')]) =
     (Return (Some ''tok''),
      \<lparr>username = ''u'', password = ''p'', token = Some ''tok'', mark = JStr ''mark'',
       session = \<lparr>pending = [Responds (body_response 200 ''other'')], sent = [login_request env0 ''u'' ''p'']\<rparr>\<rparr>) \<and>
   new_requests (new_client ''u'' ''p'' [Responds (body_response 200 ''tok''), Responds (body_response 200 ''other'')])
     (((\<lambda>c. snd (get_token env0 c)) ^^ Suc 2)
        (new_client ''u'' ''p'' [Responds (body_response 200 ''tok''), Responds (body_response 200 ''other'')])) =
     [login_request env0 ''u'' ''p'']"
proof -
  let ?c = "new_client ''u'' ''p'' [Responds (body_response 200 ''tok''), Responds (body_response 200 ''other'')]"
  have h: "token ?c = None \<and>
           pending (session ?c) = Responds (body_response 200 ''tok'') # [Responds (body_response 200 ''other'')] \<and>
           resp_text (body_response 200 ''tok'') = Inr ''tok''"
    by (simp add: new_client_def body_response_def)
  from get_token_cache [of ?c "''x''" env0 "body_response 200 ''tok''" "[Responds (body_response 200 ''other'')]" "''tok''"] h
  have "get_token env0 ?c =
        (Return (Some ''tok''),
         ?c\<lparr>token := Some ''tok'',
            session := \<lparr>pending = [Responds (body_response 200 ''other'')],
                        sent = sent (session ?c) @ [login_request env0 (username ?c) (password ?c)]\<rparr>\<rparr>)"
    and "\<forall>n. new_requests ?c (((\<lambda>c. snd (get_token env0 c)) ^^ Suc n) ?c) =
             [login_request env0 (username ?c) (password ?c)]"
    by blast+
  then have "get_token env0 ?c =
        (Return (Some ''tok''),
         ?c\<lparr>token := Some ''tok'',
            session := \<lparr>pending = [Responds (body_response 200 ''other'')],
                        sent = sent (session ?c) @ [login_request env0 (username ?c) (password ?c)]\<rparr>\<rparr>)"
    and "new_requests ?c (((\<lambda>c. snd (get_token env0 c)) ^^ Suc 2) ?c) =
             [login_request env0 (username ?c) (password ?c)]"
    by blast+
  then show ?thesis
    using h by (simp add: new_client_def)
qed

text \<open>
  C3 as stated fails for the empty string: after a login that was answered with an empty
  body the cached token is the empty string, which is falsy, and the next \<open>get_token\<close>
  returns it and sends nothing, though the transport has a token ready.
\<close>

theorem get_token_empty_counterexample:
  "token (snd (get_token env0 (new_client ''u'' ''p'' [Responds (body_response 200 []), Responds (body_response 200 ''tok'')]))) = Some [] \<and>
   get_token env0 (snd (get_token env0 (new_client ''u'' ''p'' [Responds (body_response 200 []), Responds (body_response 200 ''tok'')]))) =
     (Return (Some []),
      \<lparr>username = ''u'', password = ''p'', token = Some [], mark = JStr ''mark'',
       session = \<lparr>pending = [Responds (body_response 200 ''tok'')], sent = [login_request env0 ''u'' ''p'']\<rparr>\<rparr>)"
  by (simp add: get_token_def authenticate_def session_request_def new_client_def body_response_def
      login_request_def Let_def)

subsection \<open>Authentication failures (C4)\<close>

lemma authenticate_outcome:
  "authenticate E u p c =
     (case pending (session c) of
        [] \<Rightarrow> Blocked
      | Fails e # rest \<Rightarrow> Raise e
      | Responds r # rest \<Rightarrow>
          (case resp_text r of Inr tok \<Rightarrow> Return (Some tok) | Inl e \<Rightarrow> Raise (NameError ''HTTPError'')),
      snd (authenticate E u p c))"
  by (simp add: authenticate_def session_request_def Let_def HTTPError_def
      split: list.splits outcome.splits sum.splits)

lemma authenticate_never_None: "fst (authenticate E u p c) \<noteq> Return None"
  by (subst authenticate_outcome) (simp split: list.splits outcome.splits sum.splits)

lemma authenticate_login_failed:
  "fst (authenticate E u p c) = Raise (SimplenoteLoginFailed m) \<Longrightarrow>
   \<exists>rest. pending (session c) = Fails (SimplenoteLoginFailed m) # rest"
  by (subst (asm) authenticate_outcome) (simp split: list.splits outcome.splits sum.splits)

text \<open>
  C4 at its failing inputs.  A connectivity failure of the login POST leaves
  \<open>authenticate\<close> as the exception it is, since the POST is outside the \<open>try\<close>; an
  HTTPError raised by the transport does the same; a response with an error status is
  not looked at, and its body is returned as the token.
\<close>

theorem authenticate_failures:
  "fst (authenticate env0 ''u'' ''p'' (new_client ''u'' ''p'' [Fails (IOError ''connection refused'')])) =
     Raise (IOError ''connection refused'') \<and>
   fst (authenticate env0 ''u'' ''p'' (new_client ''u'' ''p'' [Fails (RequestsHTTPError ''401 Unauthorized'')])) =
     Raise (RequestsHTTPError ''401 Unauthorized'') \<and>
   fst (authenticate env0 ''u'' ''p'' (new_client ''u'' ''p'' [Responds (body_response 401 ''invalid login'')])) =
     Return (Some ''invalid login'')"
  by (simp add: authenticate_def session_request_def new_client_def body_response_def Let_def)

subsection \<open>Deleting (C5)\<close>

text \<open>
  C5 at its failing input: with the token cached and the note \<open>k1\<close> fetched and
  trashed, the DELETE goes to the collection endpoint.
\<close>

theorem delete_note_url:
  "map (\<lambda>r. (req_meth r, req_url r))
     (sent (session (snd (delete_note env0 ''k1''
        ((new_client ''u'' ''p''
            [Responds (json_response (JObj [(''key'', JStr ''k1''), (''content'', JStr ''hi'')])),
             Responds (json_response (JObj [(''key'', JStr ''k1''), (''deleted'', JInt 1)])),
             Responds (body_response 200 [])])
         \<lparr>token := Some ''tok''\<rparr>))))) =
     [(GET, ''https://app.simplenote.com/api2/data/k1''),
      (POST, ''https://app.simplenote.com/api2/data/k1''),
      (DELETE, ''https://app.simplenote.com/api2/data'')]"
  by (simp add: delete_note_def trash_note_def trash_note_with_def get_note_def update_note_def
      update_note_target_def get_auth_params_def get_token_def session_request_def
      new_client_def json_response_def body_response_def Simplenote_encode_def Simplenote_decode_def
      format_value_def token_value_def DATA_URL_def Let_def)

subsection \<open>Updating a note (C7)\<close>







subsection \<open>Trashing a note (C8)\<close>

text \<open>
  C8.  Whatever \<open>self.get_note\<close> is: when it returns a status of -1, \<open>trash_note\<close>
  returns the same pair and leaves the client as \<open>get_note\<close> left it, so nothing is
  sent after the fetch and \<open>update_note\<close> is not called; when it returns a note (a
  dict) with another status, \<open>trash_note\<close> is \<open>update_note\<close> on that note with
  \<open>deleted\<close> set to 1.  The second part is also stated for the methods of the class.
\<close>

theorem trash_note_fetch:
  "(self_get_note note_id c = (Return (v, - 1), c1) \<longrightarrow>
      trash_note_with self_get_note self_update_note note_id c = (Return (v, - 1), c1)) \<and>
   (self_get_note note_id c = (Return (Note (JObj d), status), c1) \<and> status \<noteq> - 1 \<longrightarrow>
      trash_note_with self_get_note self_update_note note_id c =
        self_update_note (AList.update ''deleted'' (JInt 1) d) c1 \<and>
      map_of (AList.update ''deleted'' (JInt 1) d) ''deleted'' = Some (JInt 1)) \<and>
   (get_note E note_id None c = (Return (Note (JObj d), 0), c1) \<longrightarrow>
      trash_note E note_id c = update_note E (AList.update ''deleted'' (JInt 1) d) c1)"
  by (simp add: trash_note_def trash_note_with_def update_conv')

theorem trash_note_fetch_witness:
  "failing_get_note ''k1'' (new_client ''u'' ''p'' [Responds (json_response (JObj []))]) =
     (Return (Error (IOError ''connection refused''), - 1), new_client ''u'' ''p'' [Responds (json_response (JObj []))]) \<and>
   trash_note_with failing_get_note (update_note env0) ''k1'' (new_client ''u'' ''p'' [Responds (json_response (JObj []))]) =
     (Return (Error (IOError ''connection refused''), - 1), new_client ''u'' ''p'' [Responds (json_response (JObj []))]) \<and>
   get_note env0 ''k1'' None ((new_client ''u'' ''p'' [Responds (json_response (JObj [(''key'', JStr ''k1'')]))])\<lparr>token := Some ''tok''\<rparr>) =
     (Return (Note (JObj [(''key'', JStr ''k1'')]), 0),
      \<lparr>username = ''u'', password = ''p'', token = Some ''tok'', mark = JStr ''mark'',
       session = \<lparr>pending = [],
                  sent = [\<lparr>req_meth = GET, req_url = ''https://app.simplenote.com/api2/data/k1'',
                           req_params = [(''auth'', JStr ''tok''), (''email'', JStr ''u'')],
                           req_body = NoBody\<rparr>]\<rparr>\<rparr>) \<and>
   trash_note env0 ''k1'' ((new_client ''u'' ''p'' [Responds (json_response (JObj [(''key'', JStr ''k1'')]))])\<lparr>token := Some ''tok''\<rparr>) =
     update_note env0 [(''key'', JStr ''k1''), (''deleted'', JInt 1)]
      \<lparr>username = ''u'', password = ''p'', token = Some ''tok'', mark = JStr ''mark'',
       session = \<lparr>pending = [],
                  sent = [\<lparr>req_meth = GET, req_url = ''https://app.simplenote.com/api2/data/k1'',
                           req_params = [(''auth'', JStr ''tok''), (''email'', JStr ''u'')],
                           req_body = NoBody\<rparr>]\<rparr>\<rparr>"
proof -
  let ?c = "new_client ''u'' ''p'' [Responds (json_response (JObj []))]"
  let ?c2 = "(new_client ''u'' ''p'' [Responds (json_response (JObj [(''key'', JStr ''k1'')]))])\<lparr>token := Some ''tok''\<rparr>"
  let ?c3 = "\<lparr>username = ''u'', password = ''p'', token = Some ''tok'', mark = JStr ''mark'',
       session = \<lparr>pending = [],
                  sent = [\<lparr>req_meth = GET, req_url = ''https://app.simplenote.com/api2/data/k1'',
                           req_params = [(''auth'', JStr ''tok''), (''email'', JStr ''u'')],
                           req_body = NoBody\<rparr>]\<rparr>\<rparr>"
  have h1: "failing_get_note ''k1'' ?c = (Return (Error (IOError ''connection refused''), - 1), ?c)"
    by (simp add: failing_get_note_def)
  have h2: "get_note env0 ''k1'' None ?c2 = (Return (Note (JObj [(''key'', JStr ''k1'')]), 0), ?c3)"
    by (simp add: get_note_def get_auth_params_def get_token_def token_value_def session_request_def
        new_client_def json_response_def Simplenote_encode_def DATA_URL_def Let_def)
  from trash_note_fetch [of failing_get_note "''k1''" ?c "Error (IOError ''connection refused'')" ?c
      "update_note env0" "[]" 0 env0] h1
  have r1: "trash_note_with failing_get_note (update_note env0) ''k1'' ?c =
          (Return (Error (IOError ''connection refused''), - 1), ?c)"
    by blast
  from trash_note_fetch [of failing_get_note "''k1''" ?c2 "Error (IOError ''connection refused'')" ?c3
      "update_note env0" "[(''key'', JStr ''k1'')]" 0 env0] h2
  have r2: "trash_note env0 ''k1'' ?c2 = update_note env0 (AList.update ''deleted'' (JInt 1) [(''key'', JStr ''k1'')]) ?c3"
    by blast
  show ?thesis
    using h1 h2 r1 r2 by simp
qed

text \<open>
  The \<open>get_note\<close> of the class itself never returns the status -1: an exception in
  its \<open>try\<close> reaches \<open>except HTTPError\<close> first, and the name is not bound.
\<close>

lemma get_note_status: "get_note E noteid version c = (Return (v, status), c') \<Longrightarrow> status = 0"
  by (auto simp: get_note_def get_note_except_def HTTPError_def Let_def
      split: prod.splits result.splits sum.splits)

subsection \<open>One turn of the loop of \<open>get_note_list\<close>\<close>

lemma page_in_mark: "(''mark'' \<in> fst ` set p) = (map_of p ''mark'' \<noteq> None)"
  by (simp add: map_of_eq_None_iff)

lemma update_mark_page: "update_mark (JObj p) c = Inr (c\<lparr>mark := page_mark p\<rparr>)"
  by (auto simp: update_mark_def page_mark_def page_in_mark split: option.splits)

lemma get_notes_page:
  assumes "pending (session c) = page_answer p # rest" and "is_page p"
  shows "Simplenote_get_notes notes params c =
           (Return ((notes @ page_data p, 0), mark_params (mark c) params),
            c\<lparr>mark := page_mark p,
              session := \<lparr>pending = rest,
                          sent = sent (session c) @ [listing_request (mark_params (mark c) params)]\<rparr>\<rparr>)"
proof -
  obtain d where d: "map_of p ''data'' = Some (JArr d)"
    using assms(2) by (auto simp: is_page_def split: option.splits jval.splits)
  have "get_notes_try notes (mark_params (mark c) params) c =
          (Return (JObj p, Inr (notes @ d)),
           c\<lparr>session := \<lparr>pending = rest,
                          sent = sent (session c) @ [listing_request (mark_params (mark c) params)]\<rparr>\<rparr>)"
    using assms(1) d
    by (simp add: get_notes_try_def session_request_def page_answer_def json_response_def
        listing_request_def Let_def)
  then show ?thesis
    using d by (simp add: Simplenote_get_notes_def mark_params_def update_mark_page page_data_def Let_def)
qed

lemma get_notes_fails:
  assumes "pending (session c) = Fails e # rest" and "is_IOError e"
  shows "Simplenote_get_notes notes params c =
           (Return ((notes, - 1), mark_params (mark c) params),
            c\<lparr>mark := JStr [],
              session := \<lparr>pending = rest,
                          sent = sent (session c) @ [listing_request (mark_params (mark c) params)]\<rparr>\<rparr>)"
proof -
  have "get_notes_try notes (mark_params (mark c) params) c =
          (Return (JObj [], Inl e),
           c\<lparr>session := \<lparr>pending = rest,
                          sent = sent (session c) @ [listing_request (mark_params (mark c) params)]\<rparr>\<rparr>)"
    using assms(1)
    by (simp add: get_notes_try_def session_request_def listing_request_def Let_def)
  then show ?thesis
    using assms(2) by (simp add: Simplenote_get_notes_def mark_params_def update_mark_def Let_def)
qed

lemma loop_exit:
  "\<not> truthy (mark c) \<Longrightarrow> get_note_list_loop notes status params c = (Return ((notes, status), params), c)"
  by (simp add: get_note_list_loop.simps)

lemma loop_page:
  assumes "truthy (mark c)" and "pending (session c) = page_answer p # rest" and "is_page p"
  shows "get_note_list_loop notes status params c =
           get_note_list_loop (notes @ page_data p) 0 (mark_params (mark c) params)
             (c\<lparr>mark := page_mark p,
                session := \<lparr>pending = rest,
                            sent = sent (session c) @ [listing_request (mark_params (mark c) params)]\<rparr>\<rparr>)"
  using assms(1) by (subst get_note_list_loop.simps) (simp add: get_notes_page [OF assms(2,3)])

lemma loop_fails:
  assumes "truthy (mark c)" and "pending (session c) = Fails e # rest" and "is_IOError e"
  shows "get_note_list_loop notes status params c =
           (Return ((notes, - 1), mark_params (mark c) params),
            c\<lparr>mark := JStr [],
              session := \<lparr>pending = rest,
                          sent = sent (session c) @ [listing_request (mark_params (mark c) params)]\<rparr>\<rparr>)"
  using assms(1)
  by (subst get_note_list_loop.simps) (simp add: get_notes_fails [OF assms(2,3)] loop_exit)

subsection \<open>The loop over pages\<close>

lemma loop_pages:
  assumes "pages \<noteq> []"
    and "\<forall>p \<in> set pages. is_page p"
    and "\<forall>p \<in> set (butlast pages). truthy (page_mark p)"
    and "\<not> truthy (page_mark (last pages))"
    and "truthy (mark c)"
    and "pending (session c) = map page_answer pages @ rest"
  shows "get_note_list_loop acc status params c =
           (Return ((acc @ concat (map page_data pages), 0), loop_params (mark c) params pages),
            c\<lparr>mark := page_mark (last pages),
              session := \<lparr>pending = rest,
                          sent = sent (session c) @ loop_requests (mark c) params pages\<rparr>\<rparr>)"
  using assms
proof (induction pages arbitrary: acc status params c)
  case Nil
  then show ?case by simp
next
  case (Cons p ps)
  let ?c1 = "c\<lparr>mark := page_mark p,
                session := \<lparr>pending = map page_answer ps @ rest,
                            sent = sent (session c) @ [listing_request (mark_params (mark c) params)]\<rparr>\<rparr>"
  have step: "get_note_list_loop acc status params c =
              get_note_list_loop (acc @ page_data p) 0 (mark_params (mark c) params) ?c1"
    using Cons.prems by (intro loop_page) simp_all
  show ?case
  proof (cases "ps = []")
    case True
    then show ?thesis
      using step Cons.prems by (simp add: loop_exit)
  next
    case False
    have "get_note_list_loop (acc @ page_data p) 0 (mark_params (mark c) params) ?c1 =
            (Return (((acc @ page_data p) @ concat (map page_data ps), 0),
                     loop_params (mark ?c1) (mark_params (mark c) params) ps),
             ?c1\<lparr>mark := page_mark (last ps),
                  session := \<lparr>pending = rest,
                              sent = sent (session ?c1) @ loop_requests (mark ?c1) (mark_params (mark c) params) ps\<rparr>\<rparr>)"
      using False Cons.prems by (intro Cons.IH) simp_all
    then show ?thesis
      using step False by simp
  qed
qed

lemma loop_pages_fail:
  assumes "\<forall>p \<in> set pages. is_page p \<and> truthy (page_mark p)"
    and "is_IOError e"
    and "truthy (mark c)"
    and "pending (session c) = map page_answer pages @ Fails e # rest"
  shows "get_note_list_loop acc status params c =
           (Return ((acc @ concat (map page_data pages), - 1),
                    mark_params (loop_mark (mark c) pages) (loop_params (mark c) params pages)),
            c\<lparr>mark := JStr [],
              session := \<lparr>pending = rest,
                          sent = sent (session c) @ loop_requests (mark c) params pages @
                                 [listing_request (mark_params (loop_mark (mark c) pages)
                                                     (loop_params (mark c) params pages))]\<rparr>\<rparr>)"
  using assms
proof (induction pages arbitrary: acc status params c)
  case Nil
  then show ?case
    by (simp add: loop_fails)
next
  case (Cons p ps)
  let ?c1 = "c\<lparr>mark := page_mark p,
                session := \<lparr>pending = map page_answer ps @ Fails e # rest,
                            sent = sent (session c) @ [listing_request (mark_params (mark c) params)]\<rparr>\<rparr>"
  have step: "get_note_list_loop acc status params c =
              get_note_list_loop (acc @ page_data p) 0 (mark_params (mark c) params) ?c1"
    using Cons.prems by (intro loop_page) simp_all
  have "get_note_list_loop (acc @ page_data p) 0 (mark_params (mark c) params) ?c1 =
           (Return (((acc @ page_data p) @ concat (map page_data ps), - 1),
                    mark_params (loop_mark (mark ?c1) ps) (loop_params (mark ?c1) (mark_params (mark c) params) ps)),
            ?c1\<lparr>mark := JStr [],
              session := \<lparr>pending = rest,
                          sent = sent (session ?c1) @ loop_requests (mark ?c1) (mark_params (mark c) params) ps @
                                 [listing_request (mark_params (loop_mark (mark ?c1) ps)
                                                     (loop_params (mark ?c1) (mark_params (mark c) params) ps))]\<rparr>\<rparr>)"
    using Cons.prems by (intro Cons.IH) simp_all
  then show ?case
    using step by simp
qed

lemma length_loop_requests: "length (loop_requests m params pages) = length pages"
  by (induction pages arbitrary: m params) simp_all

lemma loop_requests_index:
  "r \<in> set (loop_requests m params pages) \<Longrightarrow> req_meth r = GET \<and> req_url r = INDX_URL"
  by (induction pages arbitrary: m params) (auto simp: listing_request_def)

lemma update_twice: "AList.update k v (AList.update k w al) = AList.update k v al"
  by (induction al) auto

lemma loop_requests_marks:
  assumes "\<forall>p \<in> set (butlast pages). page_mark p \<noteq> JStr ''mark''" and "m \<noteq> JStr ''mark''"
  shows "loop_requests m params pages =
           map (\<lambda>i. listing_request
                      (AList.update ''mark'' (if i = 0 then m else page_mark (pages ! (i - 1))) params))
               [0..<length pages]"
  using assms
proof (induction pages arbitrary: m params)
  case Nil
  then show ?case by simp
next
  case (Cons p ps)
  show ?case
  proof (cases "ps = []")
    case True
    then show ?thesis using Cons.prems by (simp add: mark_params_def)
  next
    case False
    then have "loop_requests (page_mark p) (AList.update ''mark'' m params) ps =
           map (\<lambda>i. listing_request
                      (AList.update ''mark'' (if i = 0 then page_mark p else page_mark (ps ! (i - 1)))
                         (AList.update ''mark'' m params)))
               [0..<length ps]"
      using Cons.prems by (intro Cons.IH) simp_all
    then show ?thesis
      using Cons.prems
      by (simp add: mark_params_def update_twice upt_conv_Cons map_Suc_upt [symmetric] nth_Cons'
          del: upt_Suc)
  qed
qed

lemma loop_requests_first:
  assumes "\<forall>p \<in> set (butlast pages). page_mark p \<noteq> JStr ''mark''"
  shows "loop_requests (JStr ''mark'') params pages =
           map (\<lambda>i. listing_request
                      (if i = 0 then params else AList.update ''mark'' (page_mark (pages ! (i - 1))) params))
               [0..<length pages]"
proof (cases pages)
  case Nil
  then show ?thesis by simp
next
  case (Cons p ps)
  show ?thesis
  proof (cases "ps = []")
    case True
    then show ?thesis using Cons by (simp add: mark_params_def)
  next
    case False
    then have "loop_requests (page_mark p) params ps =
           map (\<lambda>i. listing_request
                      (AList.update ''mark'' (if i = 0 then page_mark p else page_mark (ps ! (i - 1))) params))
               [0..<length ps]"
      using assms Cons by (intro loop_requests_marks) simp_all
    then show ?thesis
      using Cons
      by (simp add: mark_params_def upt_conv_Cons map_Suc_upt [symmetric] nth_Cons' del: upt_Suc)
  qed
qed

subsection \<open>Pagination (C1, C2)\<close>

lemma get_auth_params_cached:
  "token c = Some tok \<Longrightarrow>
   get_auth_params E c = (Return [(''auth'', JStr tok), (''email'', JStr (username c))], c)"
  by (simp add: get_auth_params_def get_token_def token_value_def)

lemma get_note_list_cached:
  assumes "token c = Some tok"
    and "since_param E since (first_params tok (username c)) = Inr params"
    and "get_note_list_loop [] 0 params (c\<lparr>mark := JStr ''mark''\<rparr>) = (Return ((acc, status), params1), c2)"
  shows "get_note_list E since tags c = (tag_stage tags acc status, c2)"
  using assms
  by (simp add: get_note_list_def get_auth_params_cached [of _ tok] first_params_def tag_stage_def
      split: sum.splits)

lemma get_auth_params_mark: "get_auth_params E c = (x, c1) \<Longrightarrow> mark c1 = mark c"
  by (auto simp: get_auth_params_def get_token_def authenticate_def session_request_def Let_def
      HTTPError_def split: prod.splits result.splits if_splits list.splits outcome.splits sum.splits)

lemma get_note_list_stage:
  assumes "get_auth_params E (c\<lparr>mark := JStr ''mark''\<rparr>) = (Return auth, c1)"
    and "since_param E since (AList.update ''length'' (JInt NOTE_FETCH_LENGTH) auth) = Inr params"
    and "get_note_list_loop [] 0 params c1 = (Return ((acc, status), params1), c2)"
  shows "get_note_list E since tags c = (tag_stage tags acc status, c2)"
  using assms by (simp add: get_note_list_def tag_stage_def split: sum.splits)

text \<open>
  What holds for every sequence of pages.  \<open>c1\<close> is the client once the
  authentication parameters are there: the client itself when the token is cached, the
  client after the login otherwise.  The transport then answers with the pages
  \<open>pages\<close>, of which the last is the first whose mark is empty or absent, and would
  answer \<open>rest\<close> after them.  Then the list the loop has built is the data of the pages
  in page order and the status is 0; as many requests are sent as there are pages, all
  of them for the index; \<open>rest\<close> is not touched.  Without tags that list is what the
  call returns.
\<close>

lemma get_note_list_pages_any:
  assumes "get_auth_params E (c\<lparr>mark := JStr ''mark''\<rparr>) = (Return auth, c1)"
    and "since_param E since (AList.update ''length'' (JInt NOTE_FETCH_LENGTH) auth) = Inr params"
    and "pages \<noteq> []"
    and "\<forall>p \<in> set pages. is_page p"
    and "\<forall>p \<in> set (butlast pages). truthy (page_mark p)"
    and "\<not> truthy (page_mark (last pages))"
    and "pending (session c1) = map page_answer pages @ rest"
  shows "get_note_list E since tags c =
           (tag_stage tags (concat (map page_data pages)) 0,
            c1\<lparr>mark := page_mark (last pages),
               session :=
                 \<lparr>pending = rest,
                  sent = sent (session c1) @ loop_requests (JStr ''mark'') params pages\<rparr>\<rparr>) \<and>
         tag_stage [] (concat (map page_data pages)) 0 = Return (concat (map page_data pages), 0) \<and>
         length (loop_requests (JStr ''mark'') params pages) = length pages \<and>
         (\<forall>r \<in> set (loop_requests (JStr ''mark'') params pages). req_meth r = GET \<and> req_url r = INDX_URL)"
proof -
  have m: "mark c1 = JStr ''mark''"
    using get_auth_params_mark [OF assms(1)] by simp
  have "get_note_list_loop [] 0 params c1 =
          (Return (([] @ concat (map page_data pages), 0), loop_params (mark c1) params pages),
           c1\<lparr>mark := page_mark (last pages),
              session := \<lparr>pending = rest,
                          sent = sent (session c1) @ loop_requests (mark c1) params pages\<rparr>\<rparr>)"
    using assms(3-7) m by (intro loop_pages) simp_all
  then have "get_note_list_loop [] 0 params c1 =
          (Return ((concat (map page_data pages), 0), loop_params (JStr ''mark'') params pages),
           c1\<lparr>mark := page_mark (last pages),
              session := \<lparr>pending = rest,
                          sent = sent (session c1) @ loop_requests (JStr ''mark'') params pages\<rparr>\<rparr>)"
    by (simp add: m)
  from get_note_list_stage [OF assms(1,2) this, of tags]
  show ?thesis
    by (auto simp: tag_stage_def length_loop_requests dest: loop_requests_index)
qed

text \<open>
  When no page before the last has the mark \<open>"mark"\<close>, the first request has the
  parameters as they stand and each later one has the mark of the page before it.
\<close>

lemma get_note_list_pages:
  assumes "get_auth_params E (c\<lparr>mark := JStr ''mark''\<rparr>) = (Return auth, c1)"
    and "since_param E since (AList.update ''length'' (JInt NOTE_FETCH_LENGTH) auth) = Inr params"
    and "pages \<noteq> []"
    and "\<forall>p \<in> set pages. is_page p"
    and "\<forall>p \<in> set (butlast pages). truthy (page_mark p) \<and> page_mark p \<noteq> JStr ''mark''"
    and "\<not> truthy (page_mark (last pages))"
    and "pending (session c1) = map page_answer pages @ rest"
  shows "get_note_list E since tags c =
           (tag_stage tags (concat (map page_data pages)) 0,
            c1\<lparr>mark := page_mark (last pages),
               session :=
                 \<lparr>pending = rest,
                  sent = sent (session c1) @
                         map (\<lambda>i. listing_request
                                    (if i = 0 then params
                                     else AList.update ''mark'' (page_mark (pages ! (i - 1))) params))
                             [0..<length pages]\<rparr>\<rparr>) \<and>
         tag_stage [] (concat (map page_data pages)) 0 = Return (concat (map page_data pages), 0)"
proof -
  have m: "mark c1 = JStr ''mark''"
    using get_auth_params_mark [OF assms(1)] by simp
  have marks: "\<forall>p \<in> set (butlast pages). page_mark p \<noteq> JStr ''mark''"
    and truthy: "\<forall>p \<in> set (butlast pages). truthy (page_mark p)"
    using assms(5) by blast+
  have "get_note_list_loop [] 0 params c1 =
          (Return (([] @ concat (map page_data pages), 0), loop_params (mark c1) params pages),
           c1\<lparr>mark := page_mark (last pages),
              session := \<lparr>pending = rest,
                          sent = sent (session c1) @ loop_requests (mark c1) params pages\<rparr>\<rparr>)"
    using assms(3,4) truthy assms(6,7) m by (intro loop_pages) simp_all
  then have "get_note_list_loop [] 0 params c1 =
          (Return ((concat (map page_data pages), 0), loop_params (JStr ''mark'') params pages),
           c1\<lparr>mark := page_mark (last pages),
              session := \<lparr>pending = rest,
                          sent = sent (session c1) @ loop_requests (JStr ''mark'') params pages\<rparr>\<rparr>)"
    by (simp add: m)
  from get_note_list_stage [OF assms(1,2) this, of tags]
  show ?thesis
    by (simp add: loop_requests_first [OF marks] tag_stage_def)
qed

text \<open>
  The pages \<open>[{data: [A, B], mark: "m1"}, {data: [C], mark: ""}]\<close> on a new client:
  the call returns \<open>[A, B, C]\<close> and sends the login and two index requests.
\<close>

lemma get_note_list_pages_example:
  "get_note_list env0 None []
     (new_client ''u'' ''p''
       [Responds (body_response 200 ''tok''),
        page_answer [(''data'', JArr [JStr ''A'', JStr ''B'']), (''mark'', JStr ''m1'')],
        page_answer [(''data'', JArr [JStr ''C'']), (''mark'', JStr [])],
        page_answer [(''data'', JArr [JStr ''D''])]]) =
     (Return ([JStr ''A'', JStr ''B'', JStr ''C''], 0),
      \<lparr>username = ''u'', password = ''p'', token = Some ''tok'', mark = JStr [],
       session =
         \<lparr>pending = [page_answer [(''data'', JArr [JStr ''D''])]],
          sent =
            [login_request env0 ''u'' ''p'',
             listing_request [(''auth'', JStr ''tok''), (''email'', JStr ''u''), (''length'', JInt 100)],
             listing_request [(''auth'', JStr ''tok''), (''email'', JStr ''u''), (''length'', JInt 100),
                              (''mark'', JStr ''m1'')]]\<rparr>\<rparr>)"
proof -
  let ?p1 = "[(''data'', JArr [JStr ''A'', JStr ''B'']), (''mark'', JStr ''m1'')]"
  let ?p2 = "[(''data'', JArr [JStr ''C'']), (''mark'', JStr [])]"
  let ?rest = "[page_answer [(''data'', JArr [JStr ''D''])]]"
  let ?c = "new_client ''u'' ''p'' (Responds (body_response 200 ''tok'') # page_answer ?p1 # page_answer ?p2 # ?rest)"
  let ?auth = "[(''auth'', JStr ''tok''), (''email'', JStr ''u'')]"
  let ?params = "[(''auth'', JStr ''tok''), (''email'', JStr ''u''), (''length'', JInt 100)]"
  let ?c1 = "\<lparr>username = ''u'', password = ''p'', token = Some ''tok'', mark = JStr ''mark'',
       session = \<lparr>pending = page_answer ?p1 # page_answer ?p2 # ?rest,
                  sent = [login_request env0 ''u'' ''p'']\<rparr>\<rparr>"
  have h1: "get_auth_params env0 (?c\<lparr>mark := JStr ''mark''\<rparr>) = (Return ?auth, ?c1)"
    by (simp add: get_auth_params_def get_token_def authenticate_def session_request_def
        token_value_def new_client_def body_response_def login_request_def Let_def)
  have h2: "since_param env0 None (AList.update ''length'' (JInt NOTE_FETCH_LENGTH) ?auth) = Inr ?params"
    by (simp add: since_param_def NOTE_FETCH_LENGTH_def)
  have h3: "[?p1, ?p2] \<noteq> []" by simp
  have h4: "\<forall>p \<in> set [?p1, ?p2]. is_page p" by (simp add: is_page_def)
  have h5: "\<forall>p \<in> set (butlast [?p1, ?p2]). truthy (page_mark p) \<and> page_mark p \<noteq> JStr ''mark''"
    by (simp add: page_mark_def)
  have h6: "\<not> truthy (page_mark (last [?p1, ?p2]))" by (simp add: page_mark_def)
  have h7: "pending (session ?c1) = map page_answer [?p1, ?p2] @ ?rest" by simp
  from get_note_list_pages [OF h1 h2 h3 h4 h5 h6 h7, of "[]"]
  show ?thesis
    by (simp add: tag_stage_def page_data_def page_mark_def upt_rec numeral_2_eq_2)
qed

text \<open>
  C1 at its failing input.  The first page has the mark \<open>"mark"\<close>, the value
  \<open>self.mark\<close> has before the first page.  The call returns the data of both pages
  and sends two requests, but the second is the first again: \<open>__get_notes\<close> writes
  the mark into the parameters only \<open>if self.mark != "mark"\<close>, so the request after
  that page does not carry the mark of the page before it.
\<close>

theorem get_note_list_sentinel_mark:
  "get_note_list env0 None []
     ((new_client ''u'' ''p''
         [page_answer [(''data'', JArr [JStr ''A'']), (''mark'', JStr ''mark'')],
          page_answer [(''data'', JArr [JStr ''B'']), (''mark'', JStr [])]])
      \<lparr>token := Some ''tok''\<rparr>) =
     (Return ([JStr ''A'', JStr ''B''], 0),
      \<lparr>username = ''u'', password = ''p'', token = Some ''tok'', mark = JStr [],
       session =
         \<lparr>pending = [],
          sent =
            [listing_request [(''auth'', JStr ''tok''), (''email'', JStr ''u''), (''length'', JInt 100)],
             listing_request [(''auth'', JStr ''tok''), (''email'', JStr ''u''), (''length'', JInt 100)]]\<rparr>\<rparr>)"
proof -
  let ?p1 = "[(''data'', JArr [JStr ''A'']), (''mark'', JStr ''mark'')]"
  let ?p2 = "[(''data'', JArr [JStr ''B'']), (''mark'', JStr [])]"
  let ?c = "(new_client ''u'' ''p'' [page_answer ?p1, page_answer ?p2])\<lparr>token := Some ''tok''\<rparr>"
  let ?cm = "?c\<lparr>mark := JStr ''mark''\<rparr>"
  let ?params = "first_params ''tok'' ''u''"
  have t: "token ?c = Some ''tok''" by (simp add: new_client_def)
  have sp: "since_param env0 None (first_params ''tok'' (username ?c)) = Inr ?params"
    by (simp add: since_param_def new_client_def)
  have "get_note_list_loop [] 0 ?params ?cm =
          (Return (([] @ concat (map page_data [?p1, ?p2]), 0), loop_params (mark ?cm) ?params [?p1, ?p2]),
           ?cm\<lparr>mark := page_mark (last [?p1, ?p2]),
              session := \<lparr>pending = [],
                          sent = sent (session ?cm) @ loop_requests (mark ?cm) ?params [?p1, ?p2]\<rparr>\<rparr>)"
    by (rule loop_pages) (simp_all add: is_page_def page_mark_def new_client_def)
  from get_note_list_cached [OF t sp this, of "[]"]
  show ?thesis
    by (simp add: new_client_def mark_params_def page_mark_def page_data_def first_params_def
        NOTE_FETCH_LENGTH_def tag_stage_def)
qed

text \<open>
  C2, as amended.  \<open>c1\<close> is the client once the authentication parameters are there.
  The transport then answers with the pages \<open>pages\<close>, each with a mark that makes the
  loop go on, and then raises a connectivity failure \<open>e\<close>.  The loop ends there: the
  mark is the empty string, one request more than there are pages has been sent, all of
  them for the index, and what the transport would answer next is not touched.  The
  status is -1 and the list is the data of the pages fetched before the failure.  Without
  tags the call returns that pair; with tags the list first goes through the filter, as
  it does after a success.
\<close>

theorem get_note_list_failure:
  assumes "get_auth_params E (c\<lparr>mark := JStr ''mark''\<rparr>) = (Return auth, c1)"
    and "since_param E since (AList.update ''length'' (JInt NOTE_FETCH_LENGTH) auth) = Inr params"
    and "\<forall>p \<in> set pages. is_page p \<and> truthy (page_mark p)"
    and "is_IOError e"
    and "pending (session c1) = map page_answer pages @ Fails e # rest"
  shows "fst (get_note_list E since tags c) = tag_stage tags (concat (map page_data pages)) (- 1) \<and>
         tag_stage [] (concat (map page_data pages)) (- 1) = Return (concat (map page_data pages), - 1) \<and>
         mark (snd (get_note_list E since tags c)) = JStr [] \<and>
         pending (session (snd (get_note_list E since tags c))) = rest \<and>
         length (new_requests c1 (snd (get_note_list E since tags c))) = Suc (length pages) \<and>
         (\<forall>r \<in> set (new_requests c1 (snd (get_note_list E since tags c))).
            req_meth r = GET \<and> req_url r = INDX_URL)"
proof -
  let ?params1 = "mark_params (loop_mark (mark c1) pages) (loop_params (mark c1) params pages)"
  let ?reqs = "loop_requests (mark c1) params pages @ [listing_request ?params1]"
  have m: "truthy (mark c1)"
    using get_auth_params_mark [OF assms(1)] by simp
  have "get_note_list_loop [] 0 params c1 =
          (Return (([] @ concat (map page_data pages), - 1), ?params1),
           c1\<lparr>mark := JStr [],
              session := \<lparr>pending = rest, sent = sent (session c1) @ ?reqs\<rparr>\<rparr>)"
    using assms(3,4,5) m by (intro loop_pages_fail) simp_all
  then have "get_note_list_loop [] 0 params c1 =
          (Return ((concat (map page_data pages), - 1), ?params1),
           c1\<lparr>mark := JStr [], session := \<lparr>pending = rest, sent = sent (session c1) @ ?reqs\<rparr>\<rparr>)"
    by simp
  from get_note_list_stage [OF assms(1,2) this, of tags]
  have r: "get_note_list E since tags c =
          (tag_stage tags (concat (map page_data pages)) (- 1),
           c1\<lparr>mark := JStr [], session := \<lparr>pending = rest, sent = sent (session c1) @ ?reqs\<rparr>\<rparr>)" .
  have "\<forall>r \<in> set ?reqs. req_meth r = GET \<and> req_url r = INDX_URL"
    by (auto simp: listing_request_def dest: loop_requests_index)
  then show ?thesis
    by (simp add: r new_requests_def length_loop_requests tag_stage_def)
qed

theorem get_note_list_failure_witness:
  "is_IOError (IOError ''connection reset'') \<and>
   fst (get_note_list env0 None []
     (new_client ''u'' ''p''
       [Responds (body_response 200 ''tok''),
        page_answer [(''data'', JArr [JStr ''A'', JStr ''B'']), (''mark'', JStr ''m1'')],
        Fails (IOError ''connection reset''),
        page_answer [(''data'', JArr [JStr ''C''])]])) =
     Return ([JStr ''A'', JStr ''B''], - 1) \<and>
   mark (snd (get_note_list env0 None []
     (new_client ''u'' ''p''
       [Responds (body_response 200 ''tok''),
        page_answer [(''data'', JArr [JStr ''A'', JStr ''B'']), (''mark'', JStr ''m1'')],
        Fails (IOError ''connection reset''),
        page_answer [(''data'', JArr [JStr ''C''])]]))) = JStr [] \<and>
   pending (session (snd (get_note_list env0 None []
     (new_client ''u'' ''p''
       [Responds (body_response 200 ''tok''),
        page_answer [(''data'', JArr [JStr ''A'', JStr ''B'']), (''mark'', JStr ''m1'')],
        Fails (IOError ''connection reset''),
        page_answer [(''data'', JArr [JStr ''C''])]])))) =
     [page_answer [(''data'', JArr [JStr ''C''])]] \<and>
   length (sent (session (snd (get_note_list env0 None []
     (new_client ''u'' ''p''
       [Responds (body_response 200 ''tok''),
        page_answer [(''data'', JArr [JStr ''A'', JStr ''B'']), (''mark'', JStr ''m1'')],
        Fails (IOError ''connection reset''),
        page_answer [(''data'', JArr [JStr ''C''])]]))))) = 3"
proof -
  let ?p1 = "[(''data'', JArr [JStr ''A'', JStr ''B'']), (''mark'', JStr ''m1'')]"
  let ?rest = "[page_answer [(''data'', JArr [JStr ''C''])]]"
  let ?c = "new_client ''u'' ''p''
       (Responds (body_response 200 ''tok'') # page_answer ?p1 # Fails (IOError ''connection reset'') # ?rest)"
  let ?auth = "[(''auth'', JStr ''tok''), (''email'', JStr ''u'')]"
  let ?params = "[(''auth'', JStr ''tok''), (''email'', JStr ''u''), (''length'', JInt 100)]"
  let ?c1 = "\<lparr>username = ''u'', password = ''p'', token = Some ''tok'', mark = JStr ''mark'',
       session = \<lparr>pending = page_answer ?p1 # Fails (IOError ''connection reset'') # ?rest,
                  sent = [login_request env0 ''u'' ''p'']\<rparr>\<rparr>"
  have h1: "get_auth_params env0 (?c\<lparr>mark := JStr ''mark''\<rparr>) = (Return ?auth, ?c1)"
    by (simp add: get_auth_params_def get_token_def authenticate_def session_request_def
        token_value_def new_client_def body_response_def login_request_def Let_def)
  have h2: "since_param env0 None (AList.update ''length'' (JInt NOTE_FETCH_LENGTH) ?auth) = Inr ?params"
    by (simp add: since_param_def NOTE_FETCH_LENGTH_def)
  have h3: "\<forall>p \<in> set [?p1]. is_page p \<and> truthy (page_mark p)"
    by (simp add: is_page_def page_mark_def)
  have h4: "is_IOError (IOError ''connection reset'')" by simp
  have h5: "pending (session ?c1) = map page_answer [?p1] @ Fails (IOError ''connection reset'') # ?rest"
    by simp
  from get_note_list_failure [OF h1 h2 h3 h4 h5, of "[]"]
  show ?thesis
    by (auto simp: tag_stage_def page_data_def new_requests_def)
qed

text \<open>
  C2 as stated fails for a call with tags: the record fetched before the failure has no
  \<open>tags\<close> field, and the call raises KeyError where the claim has it return -1.
\<close>

theorem get_note_list_failure_counterexample:
  "fst (get_note_list env0 None [''x'']
     ((new_client ''u'' ''p''
        [page_answer [(''data'', JArr [JObj [(''key'', JStr ''a'')]]), (''mark'', JStr ''m1'')],
         Fails (IOError ''connection reset'')])\<lparr>token := Some ''tok''\<rparr>)) =
   Raise (KeyError ''tags'')"
proof -
  let ?p1 = "[(''data'', JArr [JObj [(''key'', JStr ''a'')]]), (''mark'', JStr ''m1'')]"
  let ?c = "(new_client ''u'' ''p'' [page_answer ?p1, Fails (IOError ''connection reset'')])\<lparr>token := Some ''tok''\<rparr>"
  let ?cm = "?c\<lparr>mark := JStr ''mark''\<rparr>"
  let ?params1 = "mark_params (loop_mark (mark ?cm) [?p1]) (loop_params (mark ?cm) (first_params ''tok'' ''u'') [?p1])"
  have "get_note_list_loop [] 0 (first_params ''tok'' ''u'') ?cm =
          (Return (([] @ concat (map page_data [?p1]), - 1), ?params1),
           ?cm\<lparr>mark := JStr [],
               session := \<lparr>pending = [],
                           sent = sent (session ?cm) @ loop_requests (mark ?cm) (first_params ''tok'' ''u'') [?p1] @
                                  [listing_request ?params1]\<rparr>\<rparr>)"
    by (rule loop_pages_fail) (simp_all add: is_page_def page_mark_def new_client_def)
  then have "fst (get_note_list env0 None [''x''] ?c) =
          tag_stage [''x''] ([] @ concat (map page_data [?p1])) (- 1)"
    by (subst get_note_list_cached [where tok = "''tok''" and params = "first_params ''tok'' ''u''"])
       (simp_all add: new_client_def since_param_def)
  then show ?thesis
    by (simp add: tag_stage_def page_data_def has_tag_def)
qed

subsection \<open>Filtering by tags (C6, C10)\<close>

lemma has_tag_tagged:
  "tagged_record n \<Longrightarrow> has_tag tags n = Inr (record_tags n \<inter> JStr ` set tags \<noteq> {})"
  by (auto simp: tagged_record_def record_tags_def has_tag_def py_set_def list_ex_iff
      split: jval.splits option.splits)

lemma has_tag_lacks: "lacks_tags n \<Longrightarrow> has_tag tags n = Inl (KeyError ''tags'')"
  by (auto simp: lacks_tags_def has_tag_def split: jval.splits)

lemma filter_tags_lacks:
  "n \<in> set acc \<Longrightarrow> lacks_tags n \<Longrightarrow> \<exists>e. filter_tags tags acc = Inl e"
  by (induction acc) (auto simp: has_tag_lacks split: sum.splits)

lemma filter_tags_KeyError:
  "n \<in> set acc \<Longrightarrow> lacks_tags n \<Longrightarrow> \<forall>m \<in> set acc. tagged_record m \<or> lacks_tags m \<Longrightarrow>
   filter_tags tags acc = Inl (KeyError ''tags'')"
proof (induction acc)
  case Nil
  then show ?case by simp
next
  case (Cons a acc)
  show ?case
  proof (cases "lacks_tags a")
    case True
    then show ?thesis by (simp add: has_tag_lacks)
  next
    case False
    then have "tagged_record a" and "n \<in> set acc" using Cons.prems by auto
    then show ?thesis using Cons by (simp add: has_tag_tagged)
  qed
qed

lemma has_tag_shares:
  "tag_set n = Some xs \<Longrightarrow> has_tag tags n = Inr (shares_tag tags n)"
  by (auto simp: tag_set_def shares_tag_def has_tag_def py_set_def list_ex_iff list_all_iff
      split: jval.splits option.splits if_splits)

lemma has_tag_no_set:
  "tag_set n = None \<Longrightarrow> \<exists>e. has_tag tags n = Inl e"
  by (auto simp: tag_set_def has_tag_def py_set_def list_all_iff
      split: jval.splits option.splits if_splits)

lemma filter_tags_shares:
  "\<forall>n \<in> set acc. tag_set n \<noteq> None \<Longrightarrow>
   filter_tags tags acc = Inr (filter (shares_tag tags) acc)"
  by (induction acc) (auto simp: has_tag_shares)

lemma filter_tags_returns:
  "filter_tags tags acc = Inr r \<Longrightarrow> \<forall>n \<in> set acc. tag_set n \<noteq> None"
proof (induction acc arbitrary: r)
  case Nil
  then show ?case by simp
next
  case (Cons a acc)
  then show ?case
    using has_tag_no_set [of a tags]
    by (cases "tag_set a") (auto split: sum.splits)
qed

text \<open>
  C6, as amended.  The loop has ended with the list \<open>acc\<close> and the status \<open>status\<close>,
  leaving the client \<open>c2\<close>.  Without tags the call returns that list.  With tags, and
  records of which Python can each make the set of tags, it returns the records of the
  list whose set of tags meets \<open>tags\<close>, in their order, whatever their other fields
  are (\<open>deleted\<close> is not looked at).  In both cases the client is \<open>c2\<close>: the tags
  change no request.
\<close>

theorem get_note_list_filter:
  assumes "get_auth_params E (c\<lparr>mark := JStr ''mark''\<rparr>) = (Return auth, c1)"
    and "since_param E since (AList.update ''length'' (JInt NOTE_FETCH_LENGTH) auth) = Inr params"
    and "get_note_list_loop [] 0 params c1 = (Return ((acc, status), params1), c2)"
  shows "(tags = [] \<longrightarrow> get_note_list E since tags c = (Return (acc, status), c2)) \<and>
         (tags \<noteq> [] \<and> (\<forall>n \<in> set acc. tag_set n \<noteq> None) \<longrightarrow>
            get_note_list E since tags c = (Return (filter (shares_tag tags) acc, status), c2))"
  using get_note_list_stage [OF assms, of tags]
  by (auto simp: tag_stage_def filter_tags_shares)

theorem get_note_list_filter_witness:
  "get_note_list env0 None [''x'']
     ((new_client ''u'' ''p''
        [page_answer
           [(''data'', JArr [JObj [(''key'', JStr ''a''), (''tags'', JArr [JStr ''x''])],
                             JObj [(''key'', JStr ''b''), (''tags'', JArr [JStr ''y''])],
                             JObj [(''key'', JStr ''c''), (''tags'', JArr [])],
                             JObj [(''key'', JStr ''d''), (''deleted'', JInt 1),
                                   (''tags'', JArr [JStr ''z'', JStr ''x''])],
                             JObj [(''key'', JStr ''e''), (''tags'', JStr ''x'')]])]])
      \<lparr>token := Some ''tok''\<rparr>) =
     (Return ([JObj [(''key'', JStr ''a''), (''tags'', JArr [JStr ''x''])],
               JObj [(''key'', JStr ''d''), (''deleted'', JInt 1),
                     (''tags'', JArr [JStr ''z'', JStr ''x''])],
               JObj [(''key'', JStr ''e''), (''tags'', JStr ''x'')]], 0),
      \<lparr>username = ''u'', password = ''p'', token = Some ''tok'', mark = JStr [],
       session = \<lparr>pending = [],
                  sent = [listing_request [(''auth'', JStr ''tok''), (''email'', JStr ''u''),
                                           (''length'', JInt 100)]]\<rparr>\<rparr>)"
proof -
  let ?acc = "[JObj [(''key'', JStr ''a''), (''tags'', JArr [JStr ''x''])],
               JObj [(''key'', JStr ''b''), (''tags'', JArr [JStr ''y''])],
               JObj [(''key'', JStr ''c''), (''tags'', JArr [])],
               JObj [(''key'', JStr ''d''), (''deleted'', JInt 1),
                     (''tags'', JArr [JStr ''z'', JStr ''x''])],
               JObj [(''key'', JStr ''e''), (''tags'', JStr ''x'')]]"
  let ?p = "[(''data'', JArr ?acc)]"
  let ?c = "(new_client ''u'' ''p'' [page_answer ?p])\<lparr>token := Some ''tok''\<rparr>"
  let ?auth = "[(''auth'', JStr ''tok''), (''email'', JStr ''u'')]"
  let ?params = "[(''auth'', JStr ''tok''), (''email'', JStr ''u''), (''length'', JInt 100)]"
  let ?c2 = "\<lparr>username = ''u'', password = ''p'', token = Some ''tok'', mark = JStr [],
       session = \<lparr>pending = [], sent = [listing_request ?params]\<rparr>\<rparr>"
  have h1: "get_auth_params env0 (?c\<lparr>mark := JStr ''mark''\<rparr>) = (Return ?auth, ?c\<lparr>mark := JStr ''mark''\<rparr>)"
    by (simp add: get_auth_params_def get_token_def token_value_def new_client_def)
  have h2: "since_param env0 None (AList.update ''length'' (JInt NOTE_FETCH_LENGTH) ?auth) = Inr ?params"
    by (simp add: since_param_def NOTE_FETCH_LENGTH_def)
  have h3: "get_note_list_loop [] 0 ?params (?c\<lparr>mark := JStr ''mark''\<rparr>) = (Return ((?acc, 0), ?params), ?c2)"
    using loop_pages [of "[?p]" "?c\<lparr>mark := JStr ''mark''\<rparr>" "[]" "[]" 0 ?params]
    by (simp add: is_page_def page_mark_def page_data_def new_client_def mark_params_def)
  have h4: "[''x''] \<noteq> [] \<and> (\<forall>n \<in> set ?acc. tag_set n \<noteq> None)"
    by (simp add: tag_set_def)
  from get_note_list_filter [OF h1 h2 h3, of "[''x'']"] h4
  show ?thesis
    by (simp add: shares_tag_def tag_set_def)
qed

text \<open>
  C6 as stated fails for a list with a record that has no \<open>tags\<close> field: without
  tags the call returns both records, and with the tag \<open>x\<close> it raises KeyError
  where the claim has it return the one record tagged \<open>x\<close>.
\<close>

theorem get_note_list_filter_counterexample:
  "get_note_list env0 None []
     ((new_client ''u'' ''p''
        [page_answer
           [(''data'', JArr [JObj [(''key'', JStr ''a'')],
                             JObj [(''key'', JStr ''b''), (''tags'', JArr [JStr ''x''])]])]])
      \<lparr>token := Some ''tok''\<rparr>) =
     (Return ([JObj [(''key'', JStr ''a'')],
               JObj [(''key'', JStr ''b''), (''tags'', JArr [JStr ''x''])]], 0),
      \<lparr>username = ''u'', password = ''p'', token = Some ''tok'', mark = JStr [],
       session = \<lparr>pending = [], sent = [listing_request (first_params ''tok'' ''u'')]\<rparr>\<rparr>) \<and>
   get_note_list env0 None [''x'']
     ((new_client ''u'' ''p''
        [page_answer
           [(''data'', JArr [JObj [(''key'', JStr ''a'')],
                             JObj [(''key'', JStr ''b''), (''tags'', JArr [JStr ''x''])]])]])
      \<lparr>token := Some ''tok''\<rparr>) =
     (Raise (KeyError ''tags''),
      \<lparr>username = ''u'', password = ''p'', token = Some ''tok'', mark = JStr [],
       session = \<lparr>pending = [], sent = [listing_request (first_params ''tok'' ''u'')]\<rparr>\<rparr>)"
proof -
  let ?acc = "[JObj [(''key'', JStr ''a'')],
               JObj [(''key'', JStr ''b''), (''tags'', JArr [JStr ''x''])]]"
  let ?p = "[(''data'', JArr ?acc)]"
  let ?c = "(new_client ''u'' ''p'' [page_answer ?p])\<lparr>token := Some ''tok''\<rparr>"
  let ?params = "first_params ''tok'' ''u''"
  let ?c2 = "\<lparr>username = ''u'', password = ''p'', token = Some ''tok'', mark = JStr [],
       session = \<lparr>pending = [], sent = [listing_request ?params]\<rparr>\<rparr>"
  have t: "token ?c = Some ''tok''" by (simp add: new_client_def)
  have sp: "since_param env0 None (first_params ''tok'' (username ?c)) = Inr ?params"
    by (simp add: since_param_def new_client_def)
  have loop: "get_note_list_loop [] 0 ?params (?c\<lparr>mark := JStr ''mark''\<rparr>) = (Return ((?acc, 0), ?params), ?c2)"
    using loop_pages [of "[?p]" "?c\<lparr>mark := JStr ''mark''\<rparr>" "[]" "[]" 0 ?params]
    by (simp add: is_page_def page_mark_def page_data_def new_client_def mark_params_def)
  show ?thesis
    by (simp add: get_note_list_cached [OF t sp loop] tag_stage_def has_tag_def)
qed

text \<open>
  C10.  The loop has ended with the list \<open>acc\<close>, the call has tags, and a record of the
  list is a JSON object without a \<open>tags\<close> field.  Then the call raises; what it raises
  is KeyError when every record of the list either has an array of tags or has no
  \<open>tags\<close> field.
\<close>

theorem get_note_list_missing_tags:
  assumes "get_auth_params E (c\<lparr>mark := JStr ''mark''\<rparr>) = (Return auth, c1)"
    and "since_param E since (AList.update ''length'' (JInt NOTE_FETCH_LENGTH) auth) = Inr params"
    and "get_note_list_loop [] 0 params c1 = (Return ((acc, status), params1), c2)"
    and "tags \<noteq> []"
    and "n \<in> set acc"
    and "lacks_tags n"
  shows "(\<exists>e. get_note_list E since tags c = (Raise e, c2)) \<and>
         ((\<forall>m \<in> set acc. tagged_record m \<or> lacks_tags m) \<longrightarrow>
            get_note_list E since tags c = (Raise (KeyError ''tags''), c2))"
proof -
  obtain e where "filter_tags tags acc = Inl e"
    using filter_tags_lacks [OF assms(5,6)] by blast
  then have "\<exists>e. get_note_list E since tags c = (Raise e, c2)"
    using get_note_list_stage [OF assms(1-3), of tags] assms(4) by (simp add: tag_stage_def)
  moreover have "(\<forall>m \<in> set acc. tagged_record m \<or> lacks_tags m) \<longrightarrow>
            get_note_list E since tags c = (Raise (KeyError ''tags''), c2)"
    using get_note_list_stage [OF assms(1-3), of tags] assms(4) filter_tags_KeyError [OF assms(5,6)]
    by (simp add: tag_stage_def)
  ultimately show ?thesis by blast
qed

theorem get_note_list_missing_tags_witness:
  "lacks_tags (JObj [(''key'', JStr ''b'')]) \<and>
   get_note_list env0 None [''x'']
     ((new_client ''u'' ''p''
        [page_answer
           [(''data'', JArr [JObj [(''key'', JStr ''a''), (''tags'', JArr [JStr ''x''])],
                             JObj [(''key'', JStr ''b'')]])]])
      \<lparr>token := Some ''tok''\<rparr>) =
     (Raise (KeyError ''tags''),
      \<lparr>username = ''u'', password = ''p'', token = Some ''tok'', mark = JStr [],
       session = \<lparr>pending = [],
                  sent = [listing_request [(''auth'', JStr ''tok''), (''email'', JStr ''u''),
                                           (''length'', JInt 100)]]\<rparr>\<rparr>)"
proof -
  let ?acc = "[JObj [(''key'', JStr ''a''), (''tags'', JArr [JStr ''x''])],
               JObj [(''key'', JStr ''b'')]]"
  let ?p = "[(''data'', JArr ?acc)]"
  let ?c = "(new_client ''u'' ''p'' [page_answer ?p])\<lparr>token := Some ''tok''\<rparr>"
  let ?auth = "[(''auth'', JStr ''tok''), (''email'', JStr ''u'')]"
  let ?params = "[(''auth'', JStr ''tok''), (''email'', JStr ''u''), (''length'', JInt 100)]"
  let ?c2 = "\<lparr>username = ''u'', password = ''p'', token = Some ''tok'', mark = JStr [],
       session = \<lparr>pending = [], sent = [listing_request ?params]\<rparr>\<rparr>"
  have h1: "get_auth_params env0 (?c\<lparr>mark := JStr ''mark''\<rparr>) = (Return ?auth, ?c\<lparr>mark := JStr ''mark''\<rparr>)"
    by (simp add: get_auth_params_def get_token_def token_value_def new_client_def)
  have h2: "since_param env0 None (AList.update ''length'' (JInt NOTE_FETCH_LENGTH) ?auth) = Inr ?params"
    by (simp add: since_param_def NOTE_FETCH_LENGTH_def)
  have h3: "get_note_list_loop [] 0 ?params (?c\<lparr>mark := JStr ''mark''\<rparr>) = (Return ((?acc, 0), ?params), ?c2)"
    using loop_pages [of "[?p]" "?c\<lparr>mark := JStr ''mark''\<rparr>" "[]" "[]" 0 ?params]
    by (simp add: is_page_def page_mark_def page_data_def new_client_def mark_params_def)
  have h4: "[''x''] \<noteq> []" by simp
  have h5: "JObj [(''key'', JStr ''b'')] \<in> set ?acc" by simp
  have h6: "lacks_tags (JObj [(''key'', JStr ''b'')])" by (simp add: lacks_tags_def)
  have h7: "\<forall>m \<in> set ?acc. tagged_record m \<or> lacks_tags m"
    by (simp add: tagged_record_def lacks_tags_def)
  from get_note_list_missing_tags [OF h1 h2 h3 h4 h5 h6] h6 h7
  show ?thesis
    by simp
qed

subsection \<open>The since parameter (C9)\<close>

lemma get_notes_try_client:
  "snd (get_notes_try acc params c) = snd (session_request (listing_request params) c)"
  by (simp add: get_notes_try_def listing_request_def split: prod.splits result.splits sum.splits)

lemma Simplenote_get_notes_sent:
  "sent (session (snd (Simplenote_get_notes acc params c))) =
     sent (session c) @ [listing_request (mark_params (mark c) params)]"
proof -
  have "session (snd (Simplenote_get_notes acc params c)) =
        session (snd (get_notes_try acc (mark_params (mark c) params) c))"
    by (auto simp: Simplenote_get_notes_def mark_params_def Let_def
        split: prod.splits result.splits sum.splits dest: update_mark_session)
  then show ?thesis
    by (simp add: get_notes_try_client session_request_sent)
qed

lemma Simplenote_get_notes_params:
  "Simplenote_get_notes acc params c = (Return ((acc1, status1), params1), c1) \<Longrightarrow>
   params1 = mark_params (mark c) params"
  by (auto simp: Simplenote_get_notes_def mark_params_def Let_def
      split: prod.splits result.splits sum.splits if_splits)

lemma mark_params_since: "map_of (mark_params m params) ''since'' = map_of params ''since''"
  by (simp add: mark_params_def update_conv')

lemma loop_sent:
  "\<exists>reqs. sent (session (snd (get_note_list_loop acc status params c))) = sent (session c) @ reqs \<and>
          (\<forall>r \<in> set reqs. req_url r = INDX_URL \<and>
                            map_of (req_params r) ''since'' = map_of params ''since'') \<and>
          (truthy (mark c) \<longrightarrow> reqs \<noteq> [] \<and> hd reqs = listing_request (mark_params (mark c) params))"
proof (induction acc status params c rule: get_note_list_loop.induct)
  case (1 acc status params c)
  show ?case
  proof (cases "truthy (mark c)")
    case False
    then show ?thesis by (simp add: loop_exit)
  next
    case True
    let ?rq = "listing_request (mark_params (mark c) params)"
    obtain x c1 where x: "Simplenote_get_notes acc params c = (x, c1)"
      by (cases "Simplenote_get_notes acc params c")
    then have s1: "sent (session c1) = sent (session c) @ [?rq]"
      using Simplenote_get_notes_sent [of acc params c] by simp
    have rq: "req_url ?rq = INDX_URL \<and> map_of (req_params ?rq) ''since'' = map_of params ''since''"
      by (simp add: listing_request_def mark_params_since)
    show ?thesis
    proof (cases x)
      case (Return y)
      obtain acc1 status1 params1 where y: "y = ((acc1, status1), params1)"
        by (cases y) auto
      have p1: "params1 = mark_params (mark c) params"
        using x Return y by (auto dest: Simplenote_get_notes_params)
      from "1.IH" [OF True x [symmetric] Return y [symmetric] refl]
      obtain reqs where
        r: "sent (session (snd (get_note_list_loop acc1 status1 params1 c1))) = sent (session c1) @ reqs"
        and a: "\<forall>r \<in> set reqs. req_url r = INDX_URL \<and>
                   map_of (req_params r) ''since'' = map_of params1 ''since''"
        by blast
      have "get_note_list_loop acc status params c = get_note_list_loop acc1 status1 params1 c1"
        using True x Return y by (subst get_note_list_loop.simps) simp
      then show ?thesis
        using r a s1 rq p1 True
        by (intro exI [of _ "?rq # reqs"]) (simp add: mark_params_since)
    next
      case (Raise e)
      have "get_note_list_loop acc status params c = (Raise e, c1)"
        using True x Raise by (subst get_note_list_loop.simps) simp
      then show ?thesis
        using s1 rq True by (intro exI [of _ "[?rq]"]) simp
    next
      case Blocked
      have "get_note_list_loop acc status params c = (Blocked, c1)"
        using True x Blocked by (subst get_note_list_loop.simps) simp
      then show ?thesis
        using s1 rq True by (intro exI [of _ "[?rq]"]) simp
    qed
  qed
qed

lemma get_auth_params_sent:
  "\<exists>reqs. sent (session (snd (get_auth_params E c))) = sent (session c) @ reqs \<and>
          (\<forall>r \<in> set reqs. req_url r = AUTH_URL)"
proof (cases "token c")
  case None
  have "sent (session (snd (get_auth_params E c))) =
        sent (session (snd (authenticate E (username c) (password c) c)))"
    using None by (simp add: get_auth_params_def get_token_def split: prod.splits result.splits)
  then show ?thesis
    by (intro exI [of _ "[login_request E (username c) (password c)]"])
       (simp add: authenticate_sent login_request_def)
next
  case (Some tok)
  then show ?thesis by (simp add: get_auth_params_cached)
qed

lemma get_auth_params_since:
  "get_auth_params E c = (Return auth, c1) \<Longrightarrow>
   map_of (AList.update ''length'' (JInt NOTE_FETCH_LENGTH) auth) ''since'' = None"
  by (auto simp: get_auth_params_def update_conv' split: prod.splits result.splits)

lemma since_param_value:
  "since_param E since ps = Inr params \<Longrightarrow> map_of ps ''since'' = None \<Longrightarrow>
   map_of params ''since'' = since_value E since"
  by (auto simp: since_param_def since_value_def update_conv' split: option.splits sum.splits if_splits)

lemma since_param_omitted:
  "since = None \<or> (\<exists>s e. since = Some s \<and> since_timestamp E s = Inl e \<and> (is_TypeError e \<or> is_ValueError e)) \<Longrightarrow>
   since_param E since ps = Inr ps \<and> since_value E since = None"
  by (auto simp: since_param_def since_value_def)

lemma AUTH_not_INDX: "AUTH_URL \<noteq> INDX_URL"
  by (simp add: AUTH_URL_def INDX_URL_def)

lemma get_note_list_client:
  "snd (get_note_list E since tags c) =
     (case get_auth_params E (c\<lparr>mark := JStr ''mark''\<rparr>) of
        (Return auth, c1) \<Rightarrow>
          (case since_param E since (AList.update ''length'' (JInt NOTE_FETCH_LENGTH) auth) of
             Inl e \<Rightarrow> c1
           | Inr params \<Rightarrow> snd (get_note_list_loop [] 0 params c1))
      | (Raise e, c1) \<Rightarrow> c1
      | (Blocked, c1) \<Rightarrow> c1)"
  by (simp add: get_note_list_def split: prod.splits result.splits sum.splits)

lemma get_note_list_sent:
  "\<exists>reqs. sent (session (snd (get_note_list E since tags c))) = sent (session c) @ reqs \<and>
          (\<forall>r \<in> set reqs. req_url r = INDX_URL \<longrightarrow>
                            map_of (req_params r) ''since'' = since_value E since)"
proof -
  let ?cm = "c\<lparr>mark := JStr ''mark''\<rparr>"
  obtain x c1 where x: "get_auth_params E ?cm = (x, c1)"
    by (cases "get_auth_params E ?cm")
  obtain reqsA where a: "sent (session c1) = sent (session c) @ reqsA"
    and u: "\<forall>r \<in> set reqsA. req_url r = AUTH_URL"
    using get_auth_params_sent [of E ?cm] x by auto
  have only_login: "\<exists>reqs. sent (session c1) = sent (session c) @ reqs \<and>
          (\<forall>r \<in> set reqs. req_url r = INDX_URL \<longrightarrow>
                            map_of (req_params r) ''since'' = since_value E since)"
    using a u AUTH_not_INDX by (intro exI [of _ reqsA]) simp
  show ?thesis
  proof (cases x)
    case (Return auth)
    let ?ps = "AList.update ''length'' (JInt NOTE_FETCH_LENGTH) auth"
    show ?thesis
    proof (cases "since_param E since ?ps")
      case (Inl e)
      then show ?thesis
        using only_login x Return by (simp add: get_note_list_client)
    next
      case (Inr params)
      have v: "map_of params ''since'' = since_value E since"
        using since_param_value [OF Inr] get_auth_params_since x Return by simp
      obtain reqsL where
        l: "sent (session (snd (get_note_list_loop [] 0 params c1))) = sent (session c1) @ reqsL"
        and s: "\<forall>r \<in> set reqsL. req_url r = INDX_URL \<and>
                   map_of (req_params r) ''since'' = map_of params ''since''"
        using loop_sent [of "[]" 0 params c1] by blast
      have "snd (get_note_list E since tags c) = snd (get_note_list_loop [] 0 params c1)"
        using x Return Inr by (simp add: get_note_list_client)
      then show ?thesis
        using l s a u v AUTH_not_INDX by (intro exI [of _ "reqsA @ reqsL"]) auto
    qed
  next
    case (Raise e)
    then show ?thesis using only_login x by (simp add: get_note_list_client)
  next
    case Blocked
    then show ?thesis using only_login x by (simp add: get_note_list_client)
  qed
qed

lemma get_note_list_first_request:
  assumes "token c = Some tok"
    and "since_param E since (first_params tok (username c)) = Inr params"
  shows "new_requests c (snd (get_note_list E since tags c)) \<noteq> [] \<and>
         hd (new_requests c (snd (get_note_list E since tags c))) = listing_request params"
proof -
  let ?cm = "c\<lparr>mark := JStr ''mark''\<rparr>"
  obtain reqs where
    l: "sent (session (snd (get_note_list_loop [] 0 params ?cm))) = sent (session ?cm) @ reqs"
    and h: "reqs \<noteq> [] \<and> hd reqs = listing_request (mark_params (mark ?cm) params)"
    using loop_sent [of "[]" 0 params ?cm] by auto
  have "snd (get_note_list E since tags c) = snd (get_note_list_loop [] 0 params ?cm)"
    using assms
    by (simp add: get_note_list_client get_auth_params_cached [of _ tok] first_params_def)
  then show ?thesis
    using l h by (simp add: new_requests_def mark_params_def)
qed

text \<open>
  C9.  Every index request the call sends has, under \<open>since\<close>, the timestamp the
  library gives for the string, and no \<open>since\<close> at all when the argument is absent
  or the library raises for it.  With \<open>since\<close> absent, or a string for which
  \<open>strptime\<close> raises ValueError (or TypeError), the call is the call without
  \<open>since\<close>: same result, same status, same requests.  With a string that parses and
  a cached token, the first request sent is the index request with the timestamp as its
  \<open>since\<close>.
\<close>

theorem get_note_list_since:
  "(\<forall>r \<in> set (new_requests c (snd (get_note_list E since tags c))).
      req_url r = INDX_URL \<longrightarrow> map_of (req_params r) ''since'' = since_value E since) \<and>
   (since = None \<or>
    (\<exists>s e. since = Some s \<and> since_timestamp E s = Inl e \<and> (is_TypeError e \<or> is_ValueError e)) \<longrightarrow>
      get_note_list E since tags c = get_note_list E None tags c \<and> since_value E since = None) \<and>
   (since = Some s \<and> since_timestamp E s = Inr ts \<longrightarrow>
      since_value E since = Some (JFloat ts) \<and>
      (token c = Some tok \<longrightarrow>
         hd (new_requests c (snd (get_note_list E since tags c))) =
           listing_request (first_params tok (username c) @ [(''since'', JFloat ts)])))"
proof (intro conjI impI)
  show "\<forall>r \<in> set (new_requests c (snd (get_note_list E since tags c))).
      req_url r = INDX_URL \<longrightarrow> map_of (req_params r) ''since'' = since_value E since"
    using get_note_list_sent [of E since tags c] by (auto simp: new_requests_def)
next
  assume a: "since = None \<or>
    (\<exists>s e. since = Some s \<and> since_timestamp E s = Inl e \<and> (is_TypeError e \<or> is_ValueError e))"
  have eq: "since_param E since = since_param E None"
    using since_param_omitted [OF a] by (intro ext) (simp add: since_param_def)
  show "get_note_list E since tags c = get_note_list E None tags c"
    unfolding get_note_list_def eq by (rule refl)
  show "since_value E since = None"
    using since_param_omitted [OF a] by simp
next
  assume a: "since = Some s \<and> since_timestamp E s = Inr ts"
  then show "since_value E since = Some (JFloat ts)"
    by (simp add: since_value_def)
  assume t: "token c = Some tok"
  have "since_param E since (first_params tok (username c)) =
          Inr (first_params tok (username c) @ [(''since'', JFloat ts)])"
    using a by (simp add: since_param_def first_params_def)
  from get_note_list_first_request [OF t this]
  show "hd (new_requests c (snd (get_note_list E since tags c))) =
           listing_request (first_params tok (username c) @ [(''since'', JFloat ts)])"
    by simp
qed

theorem get_note_list_since_witness:
  "since_timestamp env0 ''2018-01-01'' = Inr 1514764800 \<and>
   new_requests ((new_client ''u'' ''p'' [page_answer [(''data'', JArr [JStr ''A''])]])\<lparr>token := Some ''tok''\<rparr>)
     (snd (get_note_list env0 (Some ''2018-01-01'') []
        ((new_client ''u'' ''p'' [page_answer [(''data'', JArr [JStr ''A''])]])\<lparr>token := Some ''tok''\<rparr>))) =
     [listing_request [(''auth'', JStr ''tok''), (''email'', JStr ''u''), (''length'', JInt 100),
                       (''since'', JFloat 1514764800)]] \<and>
   map (\<lambda>r. map_of (req_params r) ''since'')
     (new_requests ((new_client ''u'' ''p'' [page_answer [(''data'', JArr [JStr ''A''])]])\<lparr>token := Some ''tok''\<rparr>)
       (snd (get_note_list env0 (Some ''2018-01-01'') []
          ((new_client ''u'' ''p'' [page_answer [(''data'', JArr [JStr ''A''])]])\<lparr>token := Some ''tok''\<rparr>)))) =
     [Some (JFloat 1514764800)] \<and>
   since_timestamp env0 ''yesterday'' = Inl (ValueError ''time data does not match format'') \<and>
   get_note_list env0 (Some ''yesterday'') []
     ((new_client ''u'' ''p'' [page_answer [(''data'', JArr [JStr ''A''])]])\<lparr>token := Some ''tok''\<rparr>) =
   get_note_list env0 None []
     ((new_client ''u'' ''p'' [page_answer [(''data'', JArr [JStr ''A''])]])\<lparr>token := Some ''tok''\<rparr>)"
proof -
  let ?p = "[(''data'', JArr [JStr ''A''])]"
  let ?c = "(new_client ''u'' ''p'' [page_answer ?p])\<lparr>token := Some ''tok''\<rparr>"
  let ?params = "[(''auth'', JStr ''tok''), (''email'', JStr ''u''), (''length'', JInt 100),
                  (''since'', JFloat 1514764800)]"
  have t1: "since_timestamp env0 ''2018-01-01'' = Inr 1514764800"
    by (simp add: env0_def)
  have t2: "since_timestamp env0 ''yesterday'' = Inl (ValueError ''time data does not match format'')"
    by (simp add: env0_def)
  have loop: "get_note_list_loop [] 0 ?params (?c\<lparr>mark := JStr ''mark''\<rparr>) =
          (Return (([JStr ''A''], 0), ?params),
           ?c\<lparr>mark := JStr [], session := \<lparr>pending = [], sent = [listing_request ?params]\<rparr>\<rparr>)"
    using loop_pages [of "[?p]" "?c\<lparr>mark := JStr ''mark''\<rparr>" "[]" "[]" 0 ?params]
    by (simp add: is_page_def page_mark_def page_data_def new_client_def mark_params_def)
  have sp: "since_param env0 (Some ''2018-01-01'') (first_params ''tok'' (username ?c)) = Inr ?params"
    by (simp add: since_param_def t1 first_params_def NOTE_FETCH_LENGTH_def new_client_def)
  have ev: "new_requests ?c (snd (get_note_list env0 (Some ''2018-01-01'') [] ?c)) = [listing_request ?params]"
    by (subst get_note_list_cached [OF _ sp loop]) (simp_all add: new_client_def new_requests_def)
  have v: "since_value env0 (Some ''2018-01-01'') = Some (JFloat 1514764800)"
    by (simp add: since_value_def t1)
  from get_note_list_since [of ?c env0 "Some ''2018-01-01''" "[]" "''2018-01-01''" 1514764800 "''tok''"]
  have a: "\<forall>r \<in> set (new_requests ?c (snd (get_note_list env0 (Some ''2018-01-01'') [] ?c))).
      req_url r = INDX_URL \<longrightarrow> map_of (req_params r) ''since'' = since_value env0 (Some ''2018-01-01'')"
    by blast
  from get_note_list_since [of ?c env0 "Some ''yesterday''" "[]" "''2018-01-01''" 1514764800 "''tok''"] t2
  have b: "get_note_list env0 (Some ''yesterday'') [] ?c = get_note_list env0 None [] ?c"
    by simp
  have u: "\<forall>r \<in> set (new_requests ?c (snd (get_note_list env0 (Some ''2018-01-01'') [] ?c))).
      req_url r = INDX_URL"
    by (simp add: ev listing_request_def)
  have "map (\<lambda>r. map_of (req_params r) ''since'')
          (new_requests ?c (snd (get_note_list env0 (Some ''2018-01-01'') [] ?c))) =
        map (\<lambda>r. since_value env0 (Some ''2018-01-01''))
          (new_requests ?c (snd (get_note_list env0 (Some ''2018-01-01'') [] ?c)))"
    using a u by (intro map_cong) simp_all
  then show ?thesis
    using t1 t2 ev b v by simp
qed

end
